theory Spec2Isabelle
  imports Main "HOL-Library.AList"
begin

section \<open>Python strings\<close>

text \<open>
  A Python \<open>str\<close> is modelled as a \<open>string\<close>, one \<open>char\<close> per code point; the model
  covers the code points below 256. The few symbols of the message constants that lie
  beyond that range are written as named constants holding their UTF-8 bytes; no
  operation of the program looks inside them.
\<close>

definition is_space :: "char \<Rightarrow> bool" where
  \<comment> \<open>\<open>str.isspace\<close> on one code point below 256: TAB..CR, FS..US, space, NEL, NBSP\<close>
  "is_space c = (let n = (of_char c :: nat) in
     (9 \<le> n \<and> n \<le> 13) \<or> (28 \<le> n \<and> n \<le> 32) \<or> n = 133 \<or> n = 160)"

definition lstrip :: "string \<Rightarrow> string" where
  "lstrip s = dropWhile is_space s"

definition rstrip :: "string \<Rightarrow> string" where
  "rstrip s = rev (dropWhile is_space (rev s))"

definition strip :: "string \<Rightarrow> string" where
  \<comment> \<open>\<open>s.strip()\<close>\<close>
  "strip s = rstrip (lstrip s)"

definition startswith :: "string \<Rightarrow> string \<Rightarrow> bool" where
  \<comment> \<open>\<open>s.startswith(p)\<close>\<close>
  "startswith s p = (take (length p) s = p)"

fun contains :: "string \<Rightarrow> string \<Rightarrow> bool" where
  \<comment> \<open>\<open>p in s\<close>, written \<open>contains p s\<close>\<close>
  "contains p [] = (p = [])"
| "contains p (c # cs) = (startswith (c # cs) p \<or> contains p cs)"

fun split_ws_from :: "string \<Rightarrow> string \<Rightarrow> string list" where
  \<comment> \<open>\<open>s.split()\<close> with the token read so far (reversed) as first argument\<close>
  "split_ws_from cur [] = (if cur = [] then [] else [rev cur])"
| "split_ws_from cur (c # cs) =
     (if is_space c
      then (if cur = [] then split_ws_from [] cs else rev cur # split_ws_from [] cs)
      else split_ws_from (c # cur) cs)"

definition split_ws :: "string \<Rightarrow> string list" where
  \<comment> \<open>\<open>s.split()\<close>: the maximal runs of non-whitespace\<close>
  "split_ws s = split_ws_from [] s"

fun split_on :: "char \<Rightarrow> string \<Rightarrow> string list" where
  \<comment> \<open>\<open>s.split(sep)\<close> for a one-character separator: always at least one piece\<close>
  "split_on sep [] = [[]]"
| "split_on sep (c # cs) =
     (if c = sep then [] # split_on sep cs
      else (case split_on sep cs of
              [] \<Rightarrow> [[c]]
            | w # ws \<Rightarrow> (c # w) # ws))"

fun join :: "string \<Rightarrow> string list \<Rightarrow> string" where
  \<comment> \<open>\<open>sep.join(xs)\<close>\<close>
  "join sep [] = []"
| "join sep [x] = x"
| "join sep (x # y # ys) = x @ sep @ join sep (y # ys)"

definition is_upper :: "char \<Rightarrow> bool" where
  \<comment> \<open>the code points below 256 that \<open>str.lower\<close> changes: A..Z and the Latin-1
      capitals 0xC0..0xDE without the multiplication sign 0xD7\<close>
  "is_upper c = (let n = (of_char c :: nat) in
     (65 \<le> n \<and> n \<le> 90) \<or> (192 \<le> n \<and> n \<le> 222 \<and> n \<noteq> 215))"

definition lower_char :: "char \<Rightarrow> char" where
  \<comment> \<open>\<open>str.lower\<close> on one code point below 256: a capital moves up by 32, that is,
      bit 5 (clear in every capital) is set\<close>
  "lower_char c =
     (if is_upper c
      then (case c of Char b0 b1 b2 b3 b4 b5 b6 b7 \<Rightarrow> Char b0 b1 b2 b3 b4 True b6 b7)
      else c)"

definition lower :: "string \<Rightarrow> string" where
  "lower s = map lower_char s"

section \<open>The slash-command handler: parsing\<close>

text \<open>
  \<open>parse_command\<close> returns a triple of three \<open>None\<close>s or a triple whose first
  component is a string; the model returns \<open>None\<close> for the former and
  \<open>Some (command_name, subcommand, args)\<close> for the latter.
\<close>

definition parse_command :: "string \<Rightarrow> (string \<times> string option \<times> string list) option" where
  "parse_command input_text =
     (if \<not> startswith input_text ''/'' then None
      else let command_text = strip (drop 1 input_text);
               parts = split_ws command_text
           in if parts = [] then None
              else Some (lower (parts ! 0),
                         (if length parts > 1 then Some (parts ! 1) else None),
                         (if length parts > 2 then drop 2 parts else [])))"

definition is_slash_command :: "string \<Rightarrow> bool" where
  "is_slash_command input_text = startswith (strip input_text) ''/''"

section \<open>Exceptions\<close>

text \<open>
  A raised exception is a value; each constructor carries the text that \<open>str(e)\<close>
  gives. \<open>Unmodelled\<close> marks a run that leaves the modelled fragment of Python
  (an operation on a float, for instance): nothing is claimed about such a run, and no
  \<open>except\<close> clause of the model catches it.
\<close>

datatype exn =
    TypeError string
  | AttributeError string
  | KeyError string
  | IndexError string
  | ValueError string
  | JSONDecodeError
  | Unmodelled

fun exn_str :: "exn \<Rightarrow> string" where
  "exn_str (TypeError m) = m"
| "exn_str (AttributeError m) = m"
| "exn_str (KeyError m) = m"
| "exn_str (IndexError m) = m"
| "exn_str (ValueError m) = m"
| "exn_str JSONDecodeError = ''JSONDecodeError''"
| "exn_str Unmodelled = []"


definition ebind :: "exn + 'a \<Rightarrow> ('a \<Rightarrow> exn + 'b) \<Rightarrow> exn + 'b" where
  \<comment> \<open>sequencing: an exception of the first step ends the run\<close>
  "ebind m f = (case m of Inl e \<Rightarrow> Inl e | Inr x \<Rightarrow> f x)"

definition catch :: "exn + 'a \<Rightarrow> (exn \<Rightarrow> exn + 'a) \<Rightarrow> exn + 'a" where
  \<comment> \<open>\<open>try: m except Exception as e: h e\<close>\<close>
  "catch m h = (case m of Inl Unmodelled \<Rightarrow> Inl Unmodelled | Inl e \<Rightarrow> h e | Inr x \<Rightarrow> Inr x)"

fun efold :: "('a \<Rightarrow> 'b \<Rightarrow> exn + 'b) \<Rightarrow> 'a list \<Rightarrow> 'b \<Rightarrow> exn + 'b" where
  \<comment> \<open>a \<open>for\<close> loop whose body may raise\<close>
  "efold f [] acc = Inr acc"
| "efold f (x # xs) acc = (case f x acc of Inl e \<Rightarrow> Inl e | Inr acc' \<Rightarrow> efold f xs acc')"

fun emap :: "('a \<Rightarrow> exn + 'b) \<Rightarrow> 'a list \<Rightarrow> exn + 'b list" where
  \<comment> \<open>a list comprehension whose element expression may raise\<close>
  "emap f [] = Inr []"
| "emap f (x # xs) =
     (case f x of Inl e \<Rightarrow> Inl e
      | Inr y \<Rightarrow> (case emap f xs of Inl e \<Rightarrow> Inl e | Inr ys \<Rightarrow> Inr (y # ys)))"

section \<open>The command registry\<close>

datatype handler =
    Handle_travel_init
  | Handle_prompts
  | Handle_servers
  | Handle_connect
  | Handle_tools
  | Handle_help
  | Handle_create_prompt

record slash_command =
  cmd_name :: string
  cmd_description :: string
  cmd_handler :: handler
  cmd_usage :: string
  cmd_aliases :: "string list"

text \<open>
  The two dictionaries of \<open>SlashCommandHandler\<close>. \<open>commands\<close> is an association list
  in insertion order (the help handler iterates over it); \<open>AList.update\<close> is Python's
  \<open>d[k] = v\<close>: it replaces the value of a present key in place and appends a new one.
\<close>

record handler_state =
  commands :: "(string \<times> slash_command) list"
  pending_format_requests :: "string \<rightharpoonup> string"

definition register_command ::
  "string \<Rightarrow> string \<Rightarrow> handler \<Rightarrow> string \<Rightarrow> string list \<Rightarrow> handler_state \<Rightarrow> handler_state" where
  "register_command n d h u als st =
     (let command = \<lparr>cmd_name = n, cmd_description = d, cmd_handler = h, cmd_usage = u,
                      cmd_aliases = als\<rparr>
      in st\<lparr>commands :=
              fold (\<lambda>alias cs. AList.update alias command cs) (cmd_aliases command)
                (AList.update n command (commands st))\<rparr>)"

definition register_default_commands :: "handler_state \<Rightarrow> handler_state" where
  "register_default_commands =
     register_command ''create-prompt'' ''Quick create a new prompt'' Handle_create_prompt
       ''/create-prompt <name>'' [''cp'', ''new-prompt''] \<circ>
     register_command ''help'' ''Show available slash commands'' Handle_help
       ''/help [command]'' [''h'', ''?''] \<circ>
     register_command ''tools'' ''List available tools'' Handle_tools
       ''/tools [server-name]'' [''tool'', ''list-tools''] \<circ>
     register_command ''connect'' ''Connect to an MCP server'' Handle_connect
       ''/connect <server-name>'' [''c''] \<circ>
     register_command ''servers'' ''List available MCP servers'' Handle_servers
       ''/servers'' [''s'', ''list-servers''] \<circ>
     register_command ''prompts'' ''View and manage D1 database prompts'' Handle_prompts
       ''/prompts [list|view|dashboard|search|category|edit|create|delete|update]''
       [''p'', ''prompt''] \<circ>
     register_command ''go'' ''Quick start travel assistant (alias for /travel)''
       Handle_travel_init ''/go'' [''g'', ''init''] \<circ>
     register_command ''travel'' ''Initialize the travel assistant'' Handle_travel_init
       ''/travel or /t'' [''t'', ''init-travel'', ''travel-init'', ''start'']"

definition init_state :: handler_state where
  \<comment> \<open>\<open>SlashCommandHandler.__init__\<close>\<close>
  "init_state =
     register_default_commands \<lparr>commands = [], pending_format_requests = Map.empty\<rparr>"

definition set_pending :: "string \<Rightarrow> string \<Rightarrow> handler_state \<Rightarrow> handler_state" where
  \<comment> \<open>\<open>self.pending_format_requests[k] = v\<close>\<close>
  "set_pending k v st = st\<lparr>pending_format_requests := (pending_format_requests st)(k \<mapsto> v)\<rparr>"

section \<open>Symbols beyond the 8-bit range\<close>

definition cross_mark :: string where
  \<comment> \<open>U+274C\<close>
  "cross_mark = [CHR 0xE2, CHR 0x9D, CHR 0x8C]"

definition check_mark :: string where
  \<comment> \<open>U+2705\<close>
  "check_mark = [CHR 0xE2, CHR 0x9C, CHR 0x85]"

definition warning_sign :: string where
  \<comment> \<open>U+26A0 U+FE0F\<close>
  "warning_sign = [CHR 0xE2, CHR 0x9A, CHR 0xA0, CHR 0xEF, CHR 0xB8, CHR 0x8F]"

definition mage :: string where
  \<comment> \<open>U+1F9D9\<close>
  "mage = [CHR 0xF0, CHR 0x9F, CHR 0xA7, CHR 0x99]"

definition bullet :: string where
  \<comment> \<open>U+2022\<close>
  "bullet = [CHR 0xE2, CHR 0x80, CHR 0xA2]"

section \<open>\<open>json.dumps\<close> on a list of strings\<close>

definition hex_digit :: "nat \<Rightarrow> char" where
  "hex_digit n = (''0123456789abcdef'') ! (n mod 16)"

definition json_escape_char :: "char \<Rightarrow> string" where
  \<comment> \<open>the encoder with \<open>ensure_ascii\<close>: the short escapes, printable ASCII as it is,
      everything else as a four-digit \<open>u\<close> escape\<close>
  "json_escape_char c = (let n = (of_char c :: nat) in
     if n = 92 then [CHR 0x5C, CHR 0x5C]
     else if n = 34 then [CHR 0x5C, CHR 0x22]
     else if n = 8 then CHR 0x5C # ''b''
     else if n = 12 then CHR 0x5C # ''f''
     else if n = 10 then CHR 0x5C # ''n''
     else if n = 13 then CHR 0x5C # ''r''
     else if n = 9 then CHR 0x5C # ''t''
     else if 32 \<le> n \<and> n \<le> 126 then [c]
     else CHR 0x5C # ''u00'' @ [hex_digit (n div 16), hex_digit n])"

definition json_dumps_str :: "string \<Rightarrow> string" where
  "json_dumps_str s = [CHR 0x22] @ concat (map json_escape_char s) @ [CHR 0x22]"

definition json_dumps_str_list :: "string list \<Rightarrow> string" where
  \<comment> \<open>\<open>json.dumps(xs)\<close> for a list of strings, with the default separators\<close>
  "json_dumps_str_list xs = ''['' @ join '', '' (map json_dumps_str xs) @ '']''"

section \<open>The command handlers\<close>

text \<open>
  A handler takes the state, the subcommand and the arguments (no handler reads the
  agent) and returns the state and either an exception or its text.
\<close>

type_synonym handler_result = "handler_state \<times> (exn + string)"

definition directive_prefix :: string where
  "directive_prefix = ''use_tool_from_server''"

definition travel_setup_wizard :: string where
  "travel_setup_wizard =
     ''# '' @ mage @ '' Travel Assistant Setup Wizard\<newline>'' @
     ''\<newline>'' @
     ''Welcome! Let's set up your travel assistant. Choose your configuration:\<newline>'' @
     ''\<newline>'' @
     ''## 1. Quick Setup Options:\<newline>'' @
     ''\<newline>'' @
     ''**A) Standard Travel Agent** `/travel load travel_agent_standard`\<newline>'' @
     ''- Full-service travel planning\<newline>'' @
     ''- Flight, hotel, and activity recommendations\<newline>'' @
     ''- Budget optimization\<newline>'' @
     ''\<newline>'' @
     ''**B) Luxury Travel Specialist** `/travel load luxury_travel_agent`\<newline>'' @
     ''- High-end travel planning\<newline>'' @
     ''- Exclusive experiences\<newline>'' @
     ''- Premium service focus\<newline>'' @
     ''\<newline>'' @
     ''**C) Budget Travel Expert** `/travel load budget_travel_expert`\<newline>'' @
     ''- Cost-effective travel solutions\<newline>'' @
     ''- Deals and savings focus\<newline>'' @
     ''- Value optimization\<newline>'' @
     ''\<newline>'' @
     ''**D) Adventure Travel Guide** `/travel load adventure_travel_guide`\<newline>'' @
     ''- Outdoor and adventure focus\<newline>'' @
     ''- Off-the-beaten-path destinations\<newline>'' @
     ''- Activity-based planning\<newline>'' @
     ''\<newline>'' @
     ''## 2. Custom Setup:\<newline>'' @
     ''Use `/travel custom [components]` with any combination:\<newline>'' @
     ''- `flights` - Flight search and booking assistance\<newline>'' @
     ''- `hotels` - Accommodation recommendations\<newline>'' @
     ''- `activities` - Tours and experiences\<newline>'' @
     ''- `itinerary` - Day-by-day planning\<newline>'' @
     ''- `budget` - Cost optimization\<newline>'' @
     ''- `safety` - Travel advisories and safety info\<newline>'' @
     ''\<newline>'' @
     ''Example: `/travel custom flights hotels itinerary`\<newline>'' @
     ''\<newline>'' @
     ''## 3. Manual Setup:\<newline>'' @
     ''- Check available prompts: `/travel check`\<newline>'' @
     ''- Load specific prompt: `/travel load <prompt_name>`\<newline>'' @
     ''- View prompt first: `/prompts view <prompt_name>`\<newline>'' @
     ''\<newline>'' @
     ''What would you like to set up?''"

definition travel_init_help :: string where
  "travel_init_help =
     ''# Travel Assistant Initialization Options\<newline>'' @
     ''\<newline>'' @
     ''## Quick Start:\<newline>'' @
     ''- `/t` or `/travel` - Default initialization (uses prompt-server)\<newline>'' @
     ''- `/go` - Alias for quick start\<newline>'' @
     ''\<newline>'' @
     ''## Initialization Methods:\<newline>'' @
     ''- `/travel check` - List available travel prompts\<newline>'' @
     ''- `/travel db` - Load from database (fallback)\<newline>'' @
     ''- `/travel full` - Load all travel-related prompts\<newline>'' @
     ''- `/travel load <name>` - Load specific prompt by name\<newline>'' @
     ''- `/travel setup` - Interactive setup wizard\<newline>'' @
     ''- `/travel custom [options]` - Custom initialization\<newline>'' @
     ''\<newline>'' @
     ''## Examples:\<newline>'' @
     ''```\<newline>'' @
     ''/travel check                    # See what's available\<newline>'' @
     ''/travel load travel_agent_pro    # Load specific prompt\<newline>'' @
     ''/travel custom flights hotels    # Custom setup\<newline>'' @
     ''/travel setup                    # Guided setup\<newline>'' @
     ''```\<newline>'' @
     ''\<newline>'' @
     ''## Troubleshooting:\<newline>'' @
     ''- If default `/t` returns unexpected content, try `/travel db`\<newline>'' @
     ''- To see all prompts: `/prompts list`\<newline>'' @
     ''- To search prompts: `/prompts search travel`\<newline>'' @
     ''- To view a prompt: `/prompts view <name>`\<newline>'' @
     ''\<newline>'' @
     ''## Creating New Prompts:\<newline>'' @
     ''```\<newline>'' @
     ''/prompts create my_travel_assistant\<newline>'' @
     ''/prompts update my_travel_assistant content \"Your prompt here...\"\<newline>'' @
     ''/prompts update my_travel_assistant category travel\<newline>'' @
     ''```''"

definition component_prompts :: "(string \<times> string) list" where
  "component_prompts =
     [(''flights'', ''flight_booking_assistant''),
      (''hotels'', ''hotel_booking_assistant''),
      (''activities'', ''activity_planning_assistant''),
      (''itinerary'', ''itinerary_builder''),
      (''budget'', ''budget_optimizer''),
      (''safety'', ''travel_safety_advisor''),
      (''luxury'', ''luxury_travel_specialist''),
      (''business'', ''business_travel_assistant'')]"

definition travel_custom_init :: "handler_state \<Rightarrow> string list \<Rightarrow> handler_result" where
  "travel_custom_init st components =
     (if components = [] then
        (st, Inr (
     ''Please specify components for custom initialization.\<newline>'' @
     ''            \<newline>'' @
     ''Available components:\<newline>'' @
     ''- `flights` - Flight search and booking\<newline>'' @
     ''- `hotels` - Accommodation services  \<newline>'' @
     ''- `activities` - Tours and experiences\<newline>'' @
     ''- `itinerary` - Trip planning\<newline>'' @
     ''- `budget` - Cost optimization\<newline>'' @
     ''- `safety` - Travel safety info\<newline>'' @
     ''- `luxury` - Premium services\<newline>'' @
     ''- `business` - Business travel\<newline>'' @
     ''\<newline>'' @
     ''Example: `/travel custom flights hotels itinerary`''))
      else
        let selected_prompts =
              concat (map (\<lambda>comp. case map_of component_prompts (lower comp) of
                                     None \<Rightarrow> [] | Some p \<Rightarrow> [p]) components)
        in if selected_prompts = [] then
             (st, Inr (''No valid components found. Available: '' @
                        join '', '' (map fst component_prompts)))
           else
             let prompt_list = join ([CHR 0x27] @ '', '' @ [CHR 0x27]) selected_prompts
             in (set_pending (''/travel custom '' @ join '' '' components) ''travel:custom_init'' st,
                 Inr ((''use_tool_from_server d1-database query {\"query\": \"SELECT name, content FROM prompts WHERE name IN ('' @ [CHR 0x27]) @
                      prompt_list @
                      ([CHR 0x27] @ '') OR (category = 'travel' AND name LIKE '%base%')\"}''))))"

definition handle_travel_init ::
  "handler_state \<Rightarrow> string option \<Rightarrow> string list \<Rightarrow> handler_result" where
  "handle_travel_init st subcommand args =
     (if subcommand = Some ''check'' then
        (set_pending ''/travel check'' ''prompts:list'' st,
         Inr ''use_tool_from_server d1-database query {\"query\": \"SELECT name, description, category FROM prompts WHERE category IN ('travel', 'system', 'travel_system', 'assistant') ORDER BY category, name\"}'')
      else if subcommand = Some ''db'' then
        (set_pending ''/travel db'' ''travel:init'' st,
         Inr ''use_tool_from_server d1-database query {\"query\": \"SELECT content FROM prompts WHERE name IN ('travel_assistant_system', 'travel_system_prompt', 'main_travel_prompt', 'travel_agent_instructions') ORDER BY CASE name WHEN 'travel_assistant_system' THEN 1 WHEN 'travel_system_prompt' THEN 2 WHEN 'main_travel_prompt' THEN 3 ELSE 4 END LIMIT 1\"}'')
      else if subcommand = Some ''full'' then
        (set_pending ''/travel full'' ''travel:full_init'' st,
         Inr ''use_tool_from_server d1-database query {\"query\": \"SELECT name, content FROM prompts WHERE category = 'travel' OR name LIKE '%travel%' ORDER BY name\"}'')
      else if subcommand = Some ''load'' then
        (if args = [] then
           (st, Inr ''Please specify a prompt name. Usage: /travel load <prompt_name>'')
         else
           let prompt_name = join '' '' args
           in (set_pending (''/travel load '' @ prompt_name) ''travel:load_specific'' st,
               Inr ((''use_tool_from_server d1-database query {\"query\": \"SELECT content FROM prompts WHERE name = '' @ [CHR 0x27]) @
                    prompt_name @ ([CHR 0x27] @ '' LIMIT 1\"}''))))
      else if subcommand = Some ''setup'' then (st, Inr travel_setup_wizard)
      else if subcommand = Some ''help'' then (st, Inr travel_init_help)
      else if subcommand = Some ''custom'' then travel_custom_init st args
      else
        (set_pending ''/travel'' ''travel:default'' st,
         Inr ''use_tool_from_server prompt-server initialize_travel_assistant''))"

definition replace_sq :: "string \<Rightarrow> string" where
  \<comment> \<open>\<open>s.replace("'", "''")\<close>: every single quote is doubled\<close>
  "replace_sq s = concat (map (\<lambda>c. if c = CHR 0x27 then [c, c] else [c]) s)"

definition handle_prompts ::
  "handler_state \<Rightarrow> string option \<Rightarrow> string list \<Rightarrow> handler_result" where
  "handle_prompts st subcommand args =
     (if subcommand = None \<or> subcommand = Some [] \<or> subcommand = Some ''list'' then
        (st, Inr ''use_tool_from_server d1-database query {\"query\": \"SELECT name, description, category, tags, updated_at FROM prompts ORDER BY category, name\"}'')
      else if subcommand = Some ''view'' then
        (if args = [] then
           (st, Inr ''Please specify a prompt name. Usage: /prompts view <prompt_name>'')
         else
           let prompt_name = join '' '' args
           in (st, Inr ((''use_tool_from_server d1-database query {\"query\": \"SELECT * FROM prompts WHERE name = '' @ [CHR 0x27]) @
                        prompt_name @ ([CHR 0x27] @ '' LIMIT 1\"}''))))
      else if subcommand = Some ''dashboard'' then
        (st, Inr ''use_tool_from_server d1-database query {\"query\": \"SELECT name, description, category, tags, created_at, updated_at FROM prompts ORDER BY category, name\"}'')
      else if subcommand = Some ''search'' then
        (if args = [] then
           (st, Inr ''Please specify search terms. Usage: /prompts search <keywords>'')
         else
           let search_term = join '' '' args
           in (st, Inr (''use_tool_from_server d1-database query {\"query\": \"SELECT name, description, category FROM prompts WHERE name LIKE '%'' @
                        search_term @ ''%' OR description LIKE '%'' @ search_term @
                        ''%' OR content LIKE '%'' @ search_term @ ''%' ORDER BY name\"}'')))
      else if subcommand = Some ''category'' then
        (if args = [] then
           (st, Inr ''use_tool_from_server d1-database query {\"query\": \"SELECT DISTINCT category, COUNT(*) as count FROM prompts GROUP BY category ORDER BY category\"}'')
         else
           let category = join '' '' args
           in (st, Inr ((''use_tool_from_server d1-database query {\"query\": \"SELECT name, description FROM prompts WHERE category = '' @ [CHR 0x27]) @
                        category @ ([CHR 0x27] @ '' ORDER BY name\"}''))))
      else if subcommand = Some ''edit'' then
        (if args = [] then
           (st, Inr ''Please specify a prompt name. Usage: /prompts edit <prompt_name>'')
         else
           let prompt_name = join '' '' args
           in (st, Inr ((''To edit the prompt '' @ [CHR 0x27]) @ prompt_name @ ([CHR 0x27] @ '', follow these steps:\<newline>\<newline>'') @
                        ''1. First view the prompt: `/prompts view '' @ prompt_name @ ''`\<newline>'' @
                        ''2. Then update specific fields: `/prompts update '' @ prompt_name @
                        '' <field> <new_value>`\<newline>\<newline>'' @
                        ''Available fields: name, description, content, category, tags\<newline>\<newline>'' @
                        ''Example: `/prompts update '' @ prompt_name @
                        '' description New description here`'')))
      else if subcommand = Some ''create'' then
        (if args = [] then
           (st, Inr ''Please specify a prompt name. Usage: /prompts create <prompt_name>'')
         else
           let prompt_name = join '' '' args
           in (set_pending (''create:'' @ prompt_name) ''create_workflow'' st,
               Inr ((''Creating new prompt '' @ [CHR 0x27]) @ prompt_name @ ([CHR 0x27] @ ''.\<newline>\<newline>'') @
                    ''Please provide the following details:\<newline>'' @
                    ''1. **Description**: Brief description of the prompt\<newline>'' @
                    ''2. **Category**: Category for organization (e.g., 'travel', 'general', 'technical')\<newline>'' @
                    ''3. **Content**: The actual prompt content\<newline>'' @
                    ''4. **Tags** (optional): Comma-separated tags\<newline>\<newline>'' @
                    ''Example format:\<newline>'' @
                    ''```\<newline>'' @
                    ''Description: A helpful travel planning assistant\<newline>'' @
                    ''Category: travel\<newline>'' @
                    ''Content: You are a knowledgeable travel assistant...\<newline>'' @
                    ''Tags: travel, planning, assistant\<newline>'' @
                    ''```'')))
      else if subcommand = Some ''update'' then
        (if length args < 2 then
           (st, Inr ''Please specify prompt name and field to update. Usage: /prompts update <prompt_name> <field> <new_value>'')
         else
           let prompt_name = args ! 0;
               field = args ! 1;
               new_value = (if length args > 2 then join '' '' (drop 2 args) else []);
               valid_fields = [''description'', ''content'', ''category'', ''tags'']
           in if field \<notin> set valid_fields then
                (st, Inr ((''Invalid field '' @ [CHR 0x27]) @ field @ ([CHR 0x27] @ ''. Valid fields: '') @
                          join '', '' valid_fields))
              else if new_value = [] then
                (st, Inr (''Please provide a new value for '' @ field @ ''.''))
              else
                let update_query =
                      (if field = ''tags'' then
                         let tags_list = map strip (split_on (CHR '','') new_value);
                             tags_json = json_dumps_str_list tags_list
                         in ''UPDATE prompts SET '' @ field @ ('' = '' @ [CHR 0x27]) @ tags_json @
                            ([CHR 0x27] @ '', updated_at = CURRENT_TIMESTAMP WHERE name = '' @ [CHR 0x27]) @
                            prompt_name @ [CHR 0x27]
                       else
                         let escaped_value = replace_sq new_value
                         in ''UPDATE prompts SET '' @ field @ ('' = '' @ [CHR 0x27]) @ escaped_value @
                            ([CHR 0x27] @ '', updated_at = CURRENT_TIMESTAMP WHERE name = '' @ [CHR 0x27]) @
                            prompt_name @ [CHR 0x27])
                in (st, Inr (''use_tool_from_server d1-database execute {\"query\": \"'' @
                             update_query @ ''\"}'')))
      else if subcommand = Some ''delete'' then
        (if args = [] then
           (st, Inr ''Please specify a prompt name. Usage: /prompts delete <prompt_name>'')
         else
           let prompt_name = join '' '' args
           in (st, Inr ((''use_tool_from_server d1-database execute {\"query\": \"DELETE FROM prompts WHERE name = '' @ [CHR 0x27]) @
                        prompt_name @ ([CHR 0x27] @ ''\"}''))))
      else
        (st, Inr (''Unknown subcommand: '' @ (case subcommand of None \<Rightarrow> ''None'' | Some s \<Rightarrow> s) @
                  ''. Available: list, view, dashboard, search, category, edit, create, update, delete'')))"

definition handle_servers ::
  "handler_state \<Rightarrow> string option \<Rightarrow> string list \<Rightarrow> handler_result" where
  "handle_servers st subcommand args = (st, Inr ''Please list the available MCP servers.'')"

definition handle_connect ::
  "handler_state \<Rightarrow> string option \<Rightarrow> string list \<Rightarrow> handler_result" where
  "handle_connect st subcommand args =
     (case subcommand of
        None \<Rightarrow> (st, Inr ''Please specify a server name. Usage: /connect <server-name>'')
      | Some s \<Rightarrow>
          if s = [] then (st, Inr ''Please specify a server name. Usage: /connect <server-name>'')
          else (st, Inr ((''Please connect to the MCP server named '' @ [CHR 0x27]) @ s @ ([CHR 0x27] @ ''.''))))"

definition handle_tools ::
  "handler_state \<Rightarrow> string option \<Rightarrow> string list \<Rightarrow> handler_result" where
  "handle_tools st subcommand args =
     (case subcommand of
        None \<Rightarrow> (st, Inr ''Please search for all available MCP tools.'')
      | Some s \<Rightarrow>
          if s = [] then (st, Inr ''Please search for all available MCP tools.'')
          else (st, Inr ((''Please search for tools available on the '' @ [CHR 0x27]) @ s @ ([CHR 0x27] @ '' server.''))))"

definition unique_commands :: "(string \<times> slash_command) list \<Rightarrow> (string \<times> slash_command) list" where
  \<comment> \<open>the loop of the help handler: the first command seen under each canonical name\<close>
  "unique_commands cs =
     fold (\<lambda>(n, cmd) u. if map_of u (cmd_name cmd) = None then u @ [(cmd_name cmd, cmd)] else u)
       cs []"

definition handle_help ::
  "handler_state \<Rightarrow> string option \<Rightarrow> string list \<Rightarrow> handler_result" where
  "handle_help st subcommand args =
     (if subcommand \<noteq> None \<and> subcommand \<noteq> Some [] then
        (let s = (case subcommand of None \<Rightarrow> [] | Some s \<Rightarrow> s)
         in case map_of (commands st) s of
              Some cmd \<Rightarrow>
                (st, Inr (''**/'' @ cmd_name cmd @ ''** - '' @ cmd_description cmd @ ''\<newline>Usage: '' @
                          cmd_usage cmd))
            | None \<Rightarrow> (st, Inr (''Unknown command: '' @ s)))
      else
        (st, Inr (fold (\<lambda>(n, cmd) help_text.
                    let aliases_text =
                          (if cmd_aliases cmd \<noteq> []
                           then '' (aliases: '' @
                                join '', '' (map (\<lambda>a. ''/'' @ a) (cmd_aliases cmd)) @ '')''
                           else [])
                    in help_text @ bullet @ '' **/'' @ cmd_name cmd @ ''** - '' @
                       cmd_description cmd @ aliases_text @ ''\<newline>'' @
                       ''  Usage: '' @ cmd_usage cmd @ ''\<newline>\<newline>'')
                  (unique_commands (commands st))
                  ''**Available slash commands:**\<newline>\<newline>'')))"

definition handle_create_prompt ::
  "handler_state \<Rightarrow> string option \<Rightarrow> string list \<Rightarrow> handler_result" where
  \<comment> \<open>the second definition of \<open>_handle_create_prompt\<close> in the class body, which
      replaces the first\<close>
  "handle_create_prompt st subcommand args =
     (if length args < 4 then
        (st, Inr (''Usage: /create-prompt <name> <description> <category> <content> [tags]\<newline>'' @
                  (''Example: /create-prompt travel-assistant 'Helpful travel planner' travel 'You are a travel assistant...' 'travel,planning'' @ [CHR 0x27])))
      else
        let pname = args ! 0;
            description = args ! 1;
            category = args ! 2;
            content = args ! 3;
            tags = (if length args > 4 then args ! 4 else []);
            tags_json = (if tags \<noteq> []
                         then json_dumps_str_list (map strip (split_on (CHR '','') tags))
                         else ''[]'');
            description = replace_sq description;
            content = replace_sq content;
            insert_query =
              ''INSERT INTO prompts (name, description, category, content, tags, created_at, updated_at) '' @
              (''VALUES ('' @ [CHR 0x27]) @ pname @ ([CHR 0x27] @ '', '' @ [CHR 0x27]) @ description @ ([CHR 0x27] @ '', '' @ [CHR 0x27]) @ category @ ([CHR 0x27] @ '', '' @ [CHR 0x27]) @
              content @ ([CHR 0x27] @ '', '' @ [CHR 0x27]) @ tags_json @ ([CHR 0x27] @ '', '') @
              ''CURRENT_TIMESTAMP, CURRENT_TIMESTAMP)''
        in (st, Inr (''use_tool_from_server d1-database execute {\"query\": \"'' @
                     insert_query @ ''\"}'')))"

fun run_handler :: "handler \<Rightarrow> handler_state \<Rightarrow> string option \<Rightarrow> string list \<Rightarrow> handler_result" where
  "run_handler Handle_travel_init = handle_travel_init"
| "run_handler Handle_prompts = handle_prompts"
| "run_handler Handle_servers = handle_servers"
| "run_handler Handle_connect = handle_connect"
| "run_handler Handle_tools = handle_tools"
| "run_handler Handle_help = handle_help"
| "run_handler Handle_create_prompt = handle_create_prompt"

section \<open>Dispatch\<close>

definition execute_command :: "handler_state \<Rightarrow> string \<Rightarrow> handler_state \<times> string" where
  "execute_command st input_text =
     (let parsed = parse_command input_text;
          command_name = map_option fst parsed;
          subcommand = (case parsed of None \<Rightarrow> None | Some (c, s, a) \<Rightarrow> s);
          args = (case parsed of None \<Rightarrow> [] | Some (c, s, a) \<Rightarrow> a)
      in case (case command_name of None \<Rightarrow> None | Some n \<Rightarrow> map_of (commands st) n) of
           None \<Rightarrow>
             (st, ''Unknown command: /'' @ (case command_name of None \<Rightarrow> ''None'' | Some n \<Rightarrow> n) @
                  ''. Use /help for available commands.'')
         | Some command \<Rightarrow>
             (case run_handler (cmd_handler command) st subcommand args of
                (st1, Inr result) \<Rightarrow>
                  (if command_name = Some ''prompts'' \<and> startswith result directive_prefix
                   then set_pending input_text
                          ((case command_name of None \<Rightarrow> ''None'' | Some n \<Rightarrow> n) @ '':'' @
                           (case subcommand of None \<Rightarrow> ''list''
                            | Some s \<Rightarrow> if s = [] then ''list'' else s)) st1
                   else st1,
                   result)
              | (st1, Inl e) \<Rightarrow> (st1, ''Error executing command: '' @ exn_str e)))"

section \<open>Python values\<close>

text \<open>
  The values that reach the result parser and the formatters: what \<open>json.loads\<close>
  produces, and dictionaries with string keys. A float is kept as the text of its
  literal; every operation that depends on its numeric value is \<open>Unmodelled\<close>.
\<close>

datatype pyval =
    PNone
  | PBool bool
  | PInt int
  | PFloat string
  | PStr string
  | PList "pyval list"
  | PDict "(string \<times> pyval) list"

fun type_name :: "pyval \<Rightarrow> string" where
  \<comment> \<open>\<open>type(v).__name__\<close>\<close>
  "type_name PNone = ''NoneType''"
| "type_name (PBool b) = ''bool''"
| "type_name (PInt i) = ''int''"
| "type_name (PFloat f) = ''float''"
| "type_name (PStr s) = ''str''"
| "type_name (PList l) = ''list''"
| "type_name (PDict d) = ''dict''"

fun str_nat :: "nat \<Rightarrow> string" where
  \<comment> \<open>the decimal digits of a natural number\<close>
  "str_nat n =
     (if n < 10 then [''0123456789'' ! n]
      else str_nat (n div 10) @ [''0123456789'' ! (n mod 10)])"

definition str_int :: "int \<Rightarrow> string" where
  \<comment> \<open>\<open>str(i)\<close> for an integer\<close>
  "str_int i = (if i < 0 then ''-'' @ str_nat (nat (- i)) else str_nat (nat i))"

definition printable :: "char \<Rightarrow> bool" where
  \<comment> \<open>\<open>str.isprintable\<close> on one code point below 256\<close>
  "printable c = (let n = (of_char c :: nat) in
     (32 \<le> n \<and> n \<le> 126) \<or> (161 \<le> n \<and> n \<noteq> 173))"

definition repr_char :: "char \<Rightarrow> char \<Rightarrow> string" where
  \<comment> \<open>one character of \<open>repr(s)\<close>, for the chosen quote character\<close>
  "repr_char q c = (let n = (of_char c :: nat) in
     if c = q \<or> n = 92 then [CHR 0x5C, c]
     else if n = 9 then CHR 0x5C # ''t''
     else if n = 10 then CHR 0x5C # ''n''
     else if n = 13 then CHR 0x5C # ''r''
     else if printable c then [c]
     else CHR 0x5C # ''x'' @ [hex_digit (n div 16), hex_digit n])"

definition repr_str :: "string \<Rightarrow> string" where
  \<comment> \<open>\<open>repr(s)\<close> for a string: single quotes, unless the string has a single quote
      and no double quote\<close>
  "repr_str s =
     (let q = (if CHR 0x27 \<in> set s \<and> CHR 0x22 \<notin> set s then CHR 0x22 else CHR 0x27)
      in [q] @ concat (map (repr_char q) s) @ [q])"

fun py_repr :: "pyval \<Rightarrow> exn + string"
  and py_repr_list :: "pyval list \<Rightarrow> exn + string list"
  and py_repr_items :: "(string \<times> pyval) list \<Rightarrow> exn + string list" where
  \<comment> \<open>\<open>repr(v)\<close>, with the renderings of the elements of a list and of the items of
      a dictionary\<close>
  "py_repr PNone = Inr ''None''"
| "py_repr (PBool b) = Inr (if b then ''True'' else ''False'')"
| "py_repr (PInt i) = Inr (str_int i)"
| "py_repr (PFloat f) = Inl Unmodelled"
| "py_repr (PStr s) = Inr (repr_str s)"
| "py_repr (PList l) =
     (case py_repr_list l of
        Inl e \<Rightarrow> Inl e
      | Inr rs \<Rightarrow> Inr (''['' @ join '', '' rs @ '']''))"
| "py_repr (PDict d) =
     (case py_repr_items d of
        Inl e \<Rightarrow> Inl e
      | Inr rs \<Rightarrow> Inr (''{'' @ join '', '' rs @ ''}''))"
| "py_repr_list [] = Inr []"
| "py_repr_list (x # xs) =
     (case py_repr x of
        Inl e \<Rightarrow> Inl e
      | Inr r \<Rightarrow> (case py_repr_list xs of Inl e \<Rightarrow> Inl e | Inr rs \<Rightarrow> Inr (r # rs)))"
| "py_repr_items [] = Inr []"
| "py_repr_items ((k, v) # kvs) =
     (case py_repr v of
        Inl e \<Rightarrow> Inl e
      | Inr r \<Rightarrow> (case py_repr_items kvs of
                    Inl e \<Rightarrow> Inl e
                  | Inr rs \<Rightarrow> Inr ((repr_str k @ '': '' @ r) # rs)))"

definition py_str :: "pyval \<Rightarrow> exn + string" where
  \<comment> \<open>\<open>str(v)\<close>, which is also what an f-string field \<open>{v}\<close> renders\<close>
  "py_str v = (case v of PStr s \<Rightarrow> Inr s | _ \<Rightarrow> py_repr v)"

fun py_truthy :: "pyval \<Rightarrow> exn + bool" where
  \<comment> \<open>\<open>bool(v)\<close>\<close>
  "py_truthy PNone = Inr False"
| "py_truthy (PBool b) = Inr b"
| "py_truthy (PInt i) = Inr (i \<noteq> 0)"
| "py_truthy (PFloat f) = Inl Unmodelled"
| "py_truthy (PStr s) = Inr (s \<noteq> [])"
| "py_truthy (PList l) = Inr (l \<noteq> [])"
| "py_truthy (PDict d) = Inr (d \<noteq> [])"

definition py_get :: "pyval \<Rightarrow> string \<Rightarrow> pyval \<Rightarrow> exn + pyval" where
  \<comment> \<open>\<open>v.get(k, default)\<close>\<close>
  "py_get v k dflt =
     (case v of
        PDict d \<Rightarrow> Inr (case map_of d k of None \<Rightarrow> dflt | Some x \<Rightarrow> x)
      | _ \<Rightarrow> Inl (AttributeError ([CHR 0x27] @ type_name v @ ([CHR 0x27] @ '' object has no attribute 'get'' @ [CHR 0x27]))))"

definition not_subscriptable :: "pyval \<Rightarrow> exn" where
  "not_subscriptable v = TypeError ([CHR 0x27] @ type_name v @ ([CHR 0x27] @ '' object is not subscriptable''))"

definition py_slice_to :: "pyval \<Rightarrow> nat \<Rightarrow> exn + pyval" where
  \<comment> \<open>\<open>v[:n]\<close>; slicing a dictionary raises an exception whose class depends on the
      interpreter version\<close>
  "py_slice_to v n =
     (case v of
        PStr s \<Rightarrow> Inr (PStr (take n s))
      | PList l \<Rightarrow> Inr (PList (take n l))
      | PDict d \<Rightarrow> Inl Unmodelled
      | _ \<Rightarrow> Inl (not_subscriptable v))"

definition py_first :: "pyval \<Rightarrow> exn + pyval" where
  \<comment> \<open>\<open>v[0]\<close>\<close>
  "py_first v =
     (case v of
        PStr s \<Rightarrow> (case s of [] \<Rightarrow> Inl (IndexError ''string index out of range'')
                    | c # cs \<Rightarrow> Inr (PStr [c]))
      | PList l \<Rightarrow> (case l of [] \<Rightarrow> Inl (IndexError ''list index out of range'')
                     | x # xs \<Rightarrow> Inr x)
      | PDict d \<Rightarrow> Inl (KeyError ''0'')
      | _ \<Rightarrow> Inl (not_subscriptable v))"

definition py_item :: "pyval \<Rightarrow> string \<Rightarrow> exn + pyval" where
  \<comment> \<open>\<open>v[k]\<close> for a string \<open>k\<close>\<close>
  "py_item v k =
     (case v of
        PDict d \<Rightarrow> (case map_of d k of None \<Rightarrow> Inl (KeyError (repr_str k)) | Some x \<Rightarrow> Inr x)
      | PStr s \<Rightarrow> Inl (TypeError ''string indices must be integers'')
      | PList l \<Rightarrow> Inl (TypeError ''list indices must be integers or slices, not str'')
      | _ \<Rightarrow> Inl (not_subscriptable v))"

definition py_len :: "pyval \<Rightarrow> exn + nat" where
  \<comment> \<open>\<open>len(v)\<close>\<close>
  "py_len v =
     (case v of
        PStr s \<Rightarrow> Inr (length s)
      | PList l \<Rightarrow> Inr (length l)
      | PDict d \<Rightarrow> Inr (length d)
      | _ \<Rightarrow> Inl (TypeError ((''object of type '' @ [CHR 0x27]) @ type_name v @ ([CHR 0x27] @ '' has no len()''))))"

definition py_iter :: "pyval \<Rightarrow> exn + pyval list" where
  \<comment> \<open>the items that \<open>for x in v\<close> visits\<close>
  "py_iter v =
     (case v of
        PStr s \<Rightarrow> Inr (map (\<lambda>c. PStr [c]) s)
      | PList l \<Rightarrow> Inr l
      | PDict d \<Rightarrow> Inr (map (\<lambda>kv. PStr (fst kv)) d)
      | _ \<Rightarrow> Inl (TypeError ([CHR 0x27] @ type_name v @ ([CHR 0x27] @ '' object is not iterable''))))"

fun join_items :: "nat \<Rightarrow> pyval list \<Rightarrow> exn + string list" where
  \<comment> \<open>the check of \<open>sep.join\<close> that every item is a string; the first argument is the
      index of the head\<close>
  "join_items i [] = Inr []"
| "join_items i (x # xs) =
     (case x of
        PStr s \<Rightarrow> (case join_items (Suc i) xs of Inl e \<Rightarrow> Inl e | Inr ss \<Rightarrow> Inr (s # ss))
      | _ \<Rightarrow> Inl (TypeError (''sequence item '' @ str_nat i @ '': expected str instance, '' @
                              type_name x @ '' found'')))"

definition py_join :: "string \<Rightarrow> pyval \<Rightarrow> exn + string" where
  \<comment> \<open>\<open>sep.join(v)\<close>\<close>
  "py_join sep v =
     (case v of
        PStr s \<Rightarrow> Inr (join sep (map (\<lambda>c. [c]) s))
      | PList l \<Rightarrow> (case join_items 0 l of Inl e \<Rightarrow> Inl e | Inr ss \<Rightarrow> Inr (join sep ss))
      | PDict d \<Rightarrow> Inr (join sep (map fst d))
      | _ \<Rightarrow> Inl (TypeError ''can only join an iterable''))"

subsection \<open>Dictionary keys\<close>

definition check_hashable :: "pyval \<Rightarrow> exn + unit" where
  \<comment> \<open>\<open>hash(v)\<close>, as far as it can raise\<close>
  "check_hashable v =
     (case v of
        PList l \<Rightarrow> Inl (TypeError (''unhashable type: 'list'' @ [CHR 0x27]))
      | PDict d \<Rightarrow> Inl (TypeError (''unhashable type: 'dict'' @ [CHR 0x27]))
      | PFloat f \<Rightarrow> Inl Unmodelled
      | _ \<Rightarrow> Inr ())"

definition key_norm :: "pyval \<Rightarrow> pyval" where
  \<comment> \<open>two hashable values are the same dictionary key when their images are equal:
      \<open>True\<close> is the key \<open>1\<close> and \<open>False\<close> the key \<open>0\<close>\<close>
  "key_norm v = (case v of PBool b \<Rightarrow> PInt (if b then 1 else 0) | _ \<Rightarrow> v)"

fun dict_append :: "pyval \<Rightarrow> 'a \<Rightarrow> (pyval \<times> 'a list) list \<Rightarrow> (pyval \<times> 'a list) list" where
  \<comment> \<open>\<open>if k not in d: d[k] = []\<close> followed by \<open>d[k].append(x)\<close>\<close>
  "dict_append k x [] = [(k, [x])]"
| "dict_append k x ((k', xs) # d) =
     (if key_norm k' = key_norm k then (k', xs @ [x]) # d else (k', xs) # dict_append k x d)"

subsection \<open>Sorting\<close>

definition is_num :: "pyval \<Rightarrow> bool" where
  "is_num v = (case v of PInt i \<Rightarrow> True | PBool b \<Rightarrow> True | _ \<Rightarrow> False)"

definition is_str :: "pyval \<Rightarrow> bool" where
  "is_str v = (case v of PStr s \<Rightarrow> True | _ \<Rightarrow> False)"

definition num_val :: "pyval \<Rightarrow> int" where
  "num_val v = (case v of PInt i \<Rightarrow> i | PBool b \<Rightarrow> (if b then 1 else 0) | _ \<Rightarrow> 0)"

fun str_lt :: "string \<Rightarrow> string \<Rightarrow> bool" where
  \<comment> \<open>\<open>s < t\<close> on strings: lexicographic on code points\<close>
  "str_lt s [] = False"
| "str_lt [] (d # t) = True"
| "str_lt (c # s) (d # t) =
     ((of_char c :: nat) < of_char d \<or> (c = d \<and> str_lt s t))"

definition comparable :: "pyval \<Rightarrow> pyval \<Rightarrow> bool" where
  \<comment> \<open>\<open>a < b\<close> does not raise: both numbers or both strings (floats and lists are
      left out of the model)\<close>
  "comparable a b = ((is_num a \<and> is_num b) \<or> (is_str a \<and> is_str b))"

definition py_lt :: "pyval \<Rightarrow> pyval \<Rightarrow> bool" where
  \<comment> \<open>\<open>a < b\<close> for a comparable pair\<close>
  "py_lt a b =
     (case (a, b) of
        (PStr s, PStr t) \<Rightarrow> str_lt s t
      | _ \<Rightarrow> num_val a < num_val b)"

definition lt_error :: "pyval \<Rightarrow> pyval \<Rightarrow> exn" where
  "lt_error a b =
     TypeError (([CHR 0x27] @ ''<' not supported between instances of '' @ [CHR 0x27]) @ type_name a @ ([CHR 0x27] @ '' and '' @ [CHR 0x27]) @
                type_name b @ [CHR 0x27])"

fun insert_sorted :: "(pyval \<times> 'a) \<Rightarrow> (pyval \<times> 'a) list \<Rightarrow> (pyval \<times> 'a) list" where
  \<comment> \<open>stable insertion: after every element that is not greater\<close>
  "insert_sorted x [] = [x]"
| "insert_sorted x (y # ys) =
     (if py_lt (fst x) (fst y) then x # y # ys else y # insert_sorted x ys)"

fun all_comparable :: "pyval list \<Rightarrow> bool" where
  \<comment> \<open>every two elements at different positions are comparable\<close>
  "all_comparable [] = True"
| "all_comparable (k # ks) = (list_all (comparable k) ks \<and> all_comparable ks)"

definition py_sorted :: "(pyval \<times> 'a) list \<Rightarrow> exn + 'a list" where
  \<comment> \<open>\<open>sorted\<close> on a list of (sort key, item) pairs. The sort is stable. It raises
      exactly when two keys are not comparable; the text of the exception names the pair
      that is compared first, which is the second key against the first one, and is left
      out of the model when that pair is comparable.\<close>
  "py_sorted kxs =
     (let ks = map fst kxs in
      if length kxs < 2 then Inr (map snd kxs)
      else if list_ex (\<lambda>k. case k of PFloat f \<Rightarrow> True | PList l \<Rightarrow> True | _ \<Rightarrow> False) ks
      then Inl Unmodelled
      else if all_comparable ks then Inr (map snd (foldl (\<lambda>acc x. insert_sorted x acc) [] kxs))
      else if \<not> comparable (ks ! 1) (ks ! 0) then Inl (lt_error (ks ! 1) (ks ! 0))
      else Inl Unmodelled)"

section \<open>\<open>json.loads\<close>\<close>

text \<open>
  The decoder of the standard library, as far as its result goes: the value, or
  \<open>JSONDecodeError\<close> when the text is not a JSON document. The text is first cut into
  tokens, then the tokens are read by a machine with a stack of open arrays and objects.
  A string escape for a code point of 256 or more is \<open>Unmodelled\<close>; the limits of the
  interpreter (nesting depth, length of an integer literal) are not modelled.
\<close>

definition chr :: "nat \<Rightarrow> char" where
  \<comment> \<open>the character with code point \<open>n\<close>, for \<open>n\<close> below 256\<close>
  "chr n = Char (odd n) (odd (n div 2)) (odd (n div 4)) (odd (n div 8))
             (odd (n div 16)) (odd (n div 32)) (odd (n div 64)) (odd (n div 128))"

definition is_digit :: "char \<Rightarrow> bool" where
  "is_digit c = (let n = (of_char c :: nat) in 48 \<le> n \<and> n \<le> 57)"

definition digit_val :: "char \<Rightarrow> nat" where
  "digit_val c = of_char c - 48"

definition hex_val :: "char \<Rightarrow> nat option" where
  "hex_val c = (let n = (of_char c :: nat) in
     if 48 \<le> n \<and> n \<le> 57 then Some (n - 48)
     else if 97 \<le> n \<and> n \<le> 102 then Some (n - 87)
     else if 65 \<le> n \<and> n \<le> 70 then Some (n - 55)
     else None)"

definition json_ws :: "char \<Rightarrow> bool" where
  \<comment> \<open>the whitespace of JSON: space, tab, line feed, carriage return\<close>
  "json_ws c = (c = CHR '' '' \<or> c = CHR 0x09 \<or> c = CHR 0x0A \<or> c = CHR 0x0D)"

definition simple_escape :: "char \<Rightarrow> char option" where
  \<comment> \<open>the character after a backslash, other than \<open>u\<close>\<close>
  "simple_escape e =
     (if e = CHR 0x22 then Some (CHR 0x22)
      else if e = CHR 0x5C then Some (CHR 0x5C)
      else if e = CHR ''/'' then Some (CHR ''/'')
      else if e = CHR ''b'' then Some (CHR 0x08)
      else if e = CHR ''f'' then Some (CHR 0x0C)
      else if e = CHR ''n'' then Some (CHR 0x0A)
      else if e = CHR ''r'' then Some (CHR 0x0D)
      else if e = CHR ''t'' then Some (CHR 0x09)
      else None)"

fun scan_string :: "string \<Rightarrow> nat \<Rightarrow> string \<Rightarrow> exn + (string \<times> nat)" where
  \<comment> \<open>the rest of a string literal after its opening quote: the characters read so far
      (reversed), the number of characters consumed so far, the input; returns the
      string and the number of characters consumed, closing quote included\<close>
  "scan_string acc n [] = Inl JSONDecodeError"
| "scan_string acc n (c # cs) =
     (if c = CHR 0x22 then Inr (rev acc, Suc n)
      else if c = CHR 0x5C then
        (case cs of
           [] \<Rightarrow> Inl JSONDecodeError
         | e # es \<Rightarrow>
             if e = CHR ''u'' then
               (case es of
                  h1 # h2 # h3 # h4 # rest \<Rightarrow>
                    (case (hex_val h1, hex_val h2, hex_val h3, hex_val h4) of
                       (Some d1, Some d2, Some d3, Some d4) \<Rightarrow>
                         if d1 = 0 \<and> d2 = 0
                         then scan_string (chr (16 * d3 + d4) # acc) (n + 6) rest
                         else Inl Unmodelled
                     | _ \<Rightarrow> Inl JSONDecodeError)
                | _ \<Rightarrow> Inl JSONDecodeError)
             else
               (case simple_escape e of
                  None \<Rightarrow> Inl JSONDecodeError
                | Some x \<Rightarrow> scan_string (x # acc) (n + 2) es))
      else if (of_char c :: nat) < 32 then Inl JSONDecodeError
      else scan_string (c # acc) (Suc n) cs)"

definition scan_number :: "string \<Rightarrow> (pyval \<times> nat) option" where
  \<comment> \<open>the longest prefix that is a JSON number: an optional minus, \<open>0\<close> or a digit
      string that does not start with \<open>0\<close>, an optional fraction, an optional exponent.
      Returns the value and the number of characters consumed.\<close>
  "scan_number s =
     (let neg = (case s of [] \<Rightarrow> False | c # cs \<Rightarrow> c = CHR ''-'');
          s1 = (if neg then drop 1 s else s)
      in case s1 of
           [] \<Rightarrow> None
         | d # ds \<Rightarrow>
             if \<not> is_digit d then None
             else
               let int_part = (if d = CHR ''0'' then [d] else d # takeWhile is_digit ds);
                   s2 = drop (length int_part) s1;
                   frac = (case s2 of
                             p # f # fs \<Rightarrow>
                               if p = CHR ''.'' \<and> is_digit f
                               then p # f # takeWhile is_digit fs else []
                           | _ \<Rightarrow> []);
                   s3 = drop (length frac) s2;
                   ex = (case s3 of
                           e # r \<Rightarrow>
                             if e = CHR ''e'' \<or> e = CHR ''E'' then
                               (let sign = (case r of
                                              [] \<Rightarrow> []
                                            | x # xs \<Rightarrow>
                                                if x = CHR ''+'' \<or> x = CHR ''-'' then [x] else []);
                                    r2 = drop (length sign) r
                                in case r2 of
                                     [] \<Rightarrow> []
                                   | x # xs \<Rightarrow>
                                       if is_digit x
                                       then e # sign @ x # takeWhile is_digit xs else [])
                             else []
                         | [] \<Rightarrow> []);
                   lexeme = (if neg then ''-'' else []) @ int_part @ frac @ ex
               in if frac = [] \<and> ex = []
                  then Some (PInt ((if neg then - 1 else 1) *
                                   int (foldl (\<lambda>a c. 10 * a + digit_val c) 0 int_part)),
                             length lexeme)
                  else Some (PFloat lexeme, length lexeme))"

datatype jtok = TLBrace | TRBrace | TLBrack | TRBrack | TComma | TColon | TVal pyval

definition next_token :: "string \<Rightarrow> exn + (jtok option \<times> nat)" where
  \<comment> \<open>the token at the head of a non-empty input (none for whitespace) and the number
      of characters it takes\<close>
  "next_token s =
     (case s of
        [] \<Rightarrow> Inl JSONDecodeError
      | c # cs \<Rightarrow>
          if json_ws c then Inr (None, 1)
          else if c = CHR 0x22 then
            (case scan_string [] 1 cs of
               Inl e \<Rightarrow> Inl e
             | Inr (str, n) \<Rightarrow> Inr (Some (TVal (PStr str)), n))
          else if c = CHR ''{'' then Inr (Some TLBrace, 1)
          else if c = CHR ''}'' then Inr (Some TRBrace, 1)
          else if c = CHR ''['' then Inr (Some TLBrack, 1)
          else if c = CHR '']'' then Inr (Some TRBrack, 1)
          else if c = CHR '','' then Inr (Some TComma, 1)
          else if c = CHR '':'' then Inr (Some TColon, 1)
          else if startswith s ''null'' then Inr (Some (TVal PNone), 4)
          else if startswith s ''true'' then Inr (Some (TVal (PBool True)), 4)
          else if startswith s ''false'' then Inr (Some (TVal (PBool False)), 5)
          else
            (case scan_number s of
               Some (v, n) \<Rightarrow> Inr (Some (TVal v), n)
             | None \<Rightarrow>
                 if startswith s ''NaN'' then Inr (Some (TVal (PFloat ''NaN'')), 3)
                 else if startswith s ''Infinity'' then Inr (Some (TVal (PFloat ''Infinity'')), 8)
                 else if startswith s ''-Infinity''
                 then Inr (Some (TVal (PFloat ''-Infinity'')), 9)
                 else Inl JSONDecodeError))"

fun lex_from :: "nat \<Rightarrow> string \<Rightarrow> exn + jtok list" where
  \<comment> \<open>the tokens of the input; the first argument counts the characters still to skip
      because they belong to the token read last\<close>
  "lex_from skip [] = Inr []"
| "lex_from skip (c # cs) =
     (if skip > 0 then lex_from (skip - 1) cs
      else
        (case next_token (c # cs) of
           Inl e \<Rightarrow> Inl e
         | Inr (None, n) \<Rightarrow> lex_from (n - 1) cs
         | Inr (Some t, n) \<Rightarrow>
             (case lex_from (n - 1) cs of Inl e \<Rightarrow> Inl e | Inr ts \<Rightarrow> Inr (t # ts))))"

definition dict_of :: "(string \<times> 'v) list \<Rightarrow> (string \<times> 'v) list" where
  \<comment> \<open>\<open>dict(pairs)\<close>: a later pair with a key seen before replaces its value in place\<close>
  "dict_of pairs = fold (\<lambda>kv d. AList.update (fst kv) (snd kv) d) pairs []"

datatype jframe =
    FArr "pyval list"
  | FObj "(string \<times> pyval) list" "string option"

datatype jmode =
    MValue
  | MArrFirst
  | MObjFirst
  | MObjKey
  | MColon
  | MAfter
  | MDone pyval

fun put_value :: "pyval \<Rightarrow> jframe list \<Rightarrow> (jmode \<times> jframe list) option" where
  \<comment> \<open>a value is complete: it is the document, an array element or a member's value\<close>
  "put_value v [] = Some (MDone v, [])"
| "put_value v (FArr es # st) = Some (MAfter, FArr (v # es) # st)"
| "put_value v (FObj ps (Some k) # st) = Some (MAfter, FObj ((k, v) # ps) None # st)"
| "put_value v (FObj ps None # st) = None"

fun parse_tokens :: "jtok list \<Rightarrow> jmode \<Rightarrow> jframe list \<Rightarrow> exn + pyval" where
  \<comment> \<open>the mode says what may come next: a value; a value or \<open>]\<close>; a key or \<open>}\<close>;
      a key; a colon; a comma or a closing bracket; nothing\<close>
  "parse_tokens [] mode stack = (case mode of MDone v \<Rightarrow> Inr v | _ \<Rightarrow> Inl JSONDecodeError)"
| "parse_tokens (t # ts) mode stack =
     (let value = (\<lambda>v st. case put_value v st of
                             None \<Rightarrow> Inl JSONDecodeError
                           | Some (m, st') \<Rightarrow> parse_tokens ts m st');
          start = (case t of
                     TVal v \<Rightarrow> value v stack
                   | TLBrack \<Rightarrow> parse_tokens ts MArrFirst (FArr [] # stack)
                   | TLBrace \<Rightarrow> parse_tokens ts MObjFirst (FObj [] None # stack)
                   | _ \<Rightarrow> Inl JSONDecodeError);
          key = (case (t, stack) of
                   (TVal (PStr k), FObj ps None # st) \<Rightarrow> parse_tokens ts MColon (FObj ps (Some k) # st)
                 | _ \<Rightarrow> Inl JSONDecodeError)
      in case mode of
           MDone v \<Rightarrow> Inl JSONDecodeError
         | MValue \<Rightarrow> start
         | MArrFirst \<Rightarrow>
             (case (t, stack) of
                (TRBrack, FArr es # st) \<Rightarrow> value (PList (rev es)) st
              | _ \<Rightarrow> start)
         | MObjFirst \<Rightarrow>
             (case (t, stack) of
                (TRBrace, FObj ps None # st) \<Rightarrow> value (PDict (dict_of (rev ps))) st
              | _ \<Rightarrow> key)
         | MObjKey \<Rightarrow> key
         | MColon \<Rightarrow> (case t of TColon \<Rightarrow> parse_tokens ts MValue stack | _ \<Rightarrow> Inl JSONDecodeError)
         | MAfter \<Rightarrow>
             (case (t, stack) of
                (TComma, FArr es # st) \<Rightarrow> parse_tokens ts MValue stack
              | (TComma, FObj ps None # st) \<Rightarrow> parse_tokens ts MObjKey stack
              | (TRBrack, FArr es # st) \<Rightarrow> value (PList (rev es)) st
              | (TRBrace, FObj ps None # st) \<Rightarrow> value (PDict (dict_of (rev ps))) st
              | _ \<Rightarrow> Inl JSONDecodeError))"

definition json_loads :: "string \<Rightarrow> exn + pyval" where
  "json_loads s =
     (case lex_from 0 s of Inl e \<Rightarrow> Inl e | Inr ts \<Rightarrow> parse_tokens ts MValue [])"

section \<open>The prompt viewer: parsing database results\<close>

definition cells :: "string \<Rightarrow> string list" where
  \<comment> \<open>\<open>[h.strip() for h in line.split('|') if h.strip()]\<close>\<close>
  "cells line = map strip (filter (\<lambda>h. strip h \<noteq> []) (split_on (CHR ''|'') line))"

definition is_table_line :: "string \<Rightarrow> bool" where
  \<comment> \<open>\<open>'|' in line and not line.strip().startswith('-')\<close>\<close>
  "is_table_line line = (contains ''|'' line \<and> \<not> startswith (strip line) ''-'')"

fun text_rows_loop ::
  "string list \<Rightarrow> string list option \<Rightarrow> (string \<times> pyval) list list \<Rightarrow> (string \<times> pyval) list list" where
  \<comment> \<open>the loop over the lines; the second argument is \<open>headers\<close> once \<open>header_line\<close>
      is set, the third is \<open>rows\<close>\<close>
  "text_rows_loop [] headers rows = rows"
| "text_rows_loop (line # lines) headers rows =
     (if is_table_line line then
        (case headers of
           None \<Rightarrow> text_rows_loop lines (Some (cells line)) rows
         | Some hs \<Rightarrow>
             let values = cells line
             in if length values = length hs
                then text_rows_loop lines headers (rows @ [dict_of (zip hs (map PStr values))])
                else text_rows_loop lines headers rows)
      else text_rows_loop lines headers rows)"

definition parse_text_results :: "string \<Rightarrow> (string \<times> pyval) list list" where
  "parse_text_results text =
     (let lines = split_on (CHR 0x0A) (strip text)
      in if lines = [] then []
         else if contains ''|'' (lines ! 0) then text_rows_loop lines None []
         else [])"

definition error_patterns :: "string list" where
  "error_patterns =
     [''connection failed'', ''database error'', ''query failed'', ''server error'',
      ''not found'', ''timeout'', ''failed to connect'']"

definition parse_db_results :: "pyval \<Rightarrow> exn + pyval" where
  \<comment> \<open>A path of the source that ends without \<open>return\<close> gives \<open>None\<close>. Nothing inside
      the outer \<open>try\<close> raises in the model, so its \<open>except\<close> branch has no counterpart.\<close>
  "parse_db_results db_results =
     (case db_results of
        PStr s \<Rightarrow>
          (let lower_result = lower s
           in if list_ex (\<lambda>pattern. contains pattern lower_result) error_patterns
              then Inr (PList [])
              else
                (case json_loads s of
                   Inr data \<Rightarrow>
                     (case data of
                        PList l \<Rightarrow> Inr data
                      | PDict d \<Rightarrow>
                          (case map_of d ''results'' of
                             Some r \<Rightarrow> Inr r
                           | None \<Rightarrow>
                               (case map_of d ''rows'' of
                                  Some r \<Rightarrow> Inr r
                                | None \<Rightarrow>
                                    (case map_of d ''error'' of
                                       Some e \<Rightarrow> Inr (PList [])
                                     | None \<Rightarrow> Inr PNone)))
                      | _ \<Rightarrow> Inr PNone)
                 | Inl JSONDecodeError \<Rightarrow> Inr (PList (map PDict (parse_text_results s)))
                 | Inl e \<Rightarrow> Inl e))
      | PList l \<Rightarrow> Inr db_results
      | PDict d \<Rightarrow>
          (case map_of d ''error'' of
             Some e \<Rightarrow> Inr (PList [])
           | None \<Rightarrow>
               (case map_of d ''results'' of
                  Some r \<Rightarrow> Inr r
                | None \<Rightarrow>
                    (case map_of d ''rows'' of
                       Some r \<Rightarrow> Inr r
                     | None \<Rightarrow> Inr (PList [db_results]))))
      | _ \<Rightarrow> Inr (PList []))"

section \<open>The prompt viewer: rendering\<close>

definition group_by_category :: "pyval \<Rightarrow> exn + (pyval \<times> pyval list) list" where
  \<comment> \<open>the loop that fills \<open>by_category\<close>\<close>
  "group_by_category prompts =
     ebind (py_iter prompts) (\<lambda>items.
       efold (\<lambda>prompt by_category.
                ebind (py_get prompt ''category'' (PStr ''Uncategorized'')) (\<lambda>category.
                ebind (check_hashable category) (\<lambda>u.
                Inr (dict_append category prompt by_category))))
             items [])"

definition sorted_by_name :: "pyval list \<Rightarrow> exn + pyval list" where
  \<comment> \<open>\<open>sorted(category_prompts, key=lambda p: p.get('name', ''))\<close>\<close>
  "sorted_by_name category_prompts =
     ebind (emap (\<lambda>p. ebind (py_get p ''name'' (PStr [])) (\<lambda>k. Inr (k, p))) category_prompts)
       py_sorted"

definition sorted_items :: "(pyval \<times> 'a) list \<Rightarrow> exn + (pyval \<times> 'a) list" where
  \<comment> \<open>\<open>sorted(by_category.items())\<close>: the keys of a dictionary differ, so two items are
      ordered by their keys\<close>
  "sorted_items d = py_sorted (map (\<lambda>kv. (fst kv, kv)) d)"

definition format_prompt_list :: "pyval \<Rightarrow> exn + string" where
  "format_prompt_list prompts =
     ebind (py_truthy prompts) (\<lambda>t.
       if \<not> t then Inr ''No prompts found.''
       else
         ebind (group_by_category prompts) (\<lambda>by_category.
         ebind (sorted_items by_category) (\<lambda>groups.
           efold (\<lambda>(category, category_prompts) output.
                    ebind (py_str category) (\<lambda>c.
                    ebind (sorted_by_name category_prompts) (\<lambda>ps.
                    ebind (efold (\<lambda>prompt output.
                                    ebind (py_get prompt ''name'' (PStr ''Unnamed'')) (\<lambda>name.
                                    ebind (py_get prompt ''description'' (PStr ''No description''))
                                      (\<lambda>desc.
                                    ebind (py_str name) (\<lambda>n.
                                    ebind (py_str desc) (\<lambda>d.
                                    Inr (output @ ''- **'' @ n @ ''**: '' @ d @ ''\<newline>''))))))
                                 ps (output @ ''## '' @ c @ ''\<newline>\<newline>'')) (\<lambda>output.
                    Inr (output @ ''\<newline>'')))))
                 groups ''# Available Prompts\<newline>\<newline>'')))"

definition format_prompt_detail :: "pyval \<Rightarrow> exn + string" where
  "format_prompt_detail prompt =
     ebind (py_get prompt ''name'' (PStr ''Unnamed Prompt'')) (\<lambda>name.
     ebind (py_get prompt ''description'' (PStr ''No description'')) (\<lambda>desc.
     ebind (py_get prompt ''prompt'' (PStr ''No content'')) (\<lambda>content_default.
     ebind (py_get prompt ''content'' content_default) (\<lambda>content.
     ebind (py_get prompt ''category'' (PStr ''Uncategorized'')) (\<lambda>category.
     ebind (py_get prompt ''tags'' (PList [])) (\<lambda>tags.
     ebind (py_str name) (\<lambda>n.
     ebind (py_str category) (\<lambda>c.
     ebind (py_str desc) (\<lambda>d.
     let output = ''# '' @ n @ ''\<newline>\<newline>'' @ ''**Category:** '' @ c @ ''\<newline>'' @
                  ''**Description:** '' @ d @ ''\<newline>''
     in
     ebind (py_truthy tags) (\<lambda>t.
     ebind (if t then
              (case tags of
                 PStr s \<Rightarrow> Inr (output @ ''**Tags:** '' @ s @ ''\<newline>'')
               | _ \<Rightarrow> ebind (py_join '', '' tags) (\<lambda>j. Inr (output @ ''**Tags:** '' @ j @ ''\<newline>'')))
            else Inr output) (\<lambda>output.
     ebind (py_str content) (\<lambda>ct.
     let output = output @ ''\<newline>## Content\<newline>\<newline>```\<newline>'' @ ct @ ''\<newline>```\<newline>'';
         metadata_fields = [''created_at'', ''updated_at'', ''version'', ''author'']
     in
     ebind (efold (\<lambda>field metadata_output.
                     (case prompt of
                        PDict p \<Rightarrow>
                          (case map_of p field of
                             None \<Rightarrow> Inr metadata_output
                           | Some v \<Rightarrow>
                               ebind (py_str v) (\<lambda>s. Inr (metadata_output @ [field @ '': '' @ s])))
                      | _ \<Rightarrow> Inr metadata_output))
                  metadata_fields []) (\<lambda>metadata_output.
     Inr (if metadata_output \<noteq> []
          then output @ ''\<newline>## Metadata\<newline>\<newline>'' @ join ''\<newline>'' metadata_output
          else output))))))))))))))"

definition dashboard_header :: string where
  "dashboard_header =
     ''# Prompt Management Dashboard\<newline>\<newline>'' @
     ''This view shows all prompts from the D1 database. '' @
     ''You can use the slash commands to manage them:\<newline>\<newline>'' @
     ''- `/prompts list` - List all prompts\<newline>'' @
     ''- `/prompts view <name>` - View a specific prompt\<newline>'' @
     ''- `/prompts edit <name>` - Edit a prompt\<newline>'' @
     ''- `/prompts create <name>` - Create a new prompt\<newline>'' @
     ''- `/prompts delete <name>` - Delete a prompt\<newline>\<newline>'' @
     ''---\<newline>\<newline>''"

definition dashboard_row :: "pyval \<Rightarrow> pyval \<Rightarrow> string \<Rightarrow> exn + string" where
  \<comment> \<open>the body of the inner loop of the table: one row appended to \<open>output\<close>\<close>
  "dashboard_row category prompt output =
     ebind (py_get prompt ''name'' (PStr ''Unnamed'')) (\<lambda>name.
     ebind (py_get prompt ''description'' (PStr ''No description'')) (\<lambda>d0.
     ebind (py_slice_to d0 50) (\<lambda>desc.
     ebind (py_get prompt ''description'' (PStr [])) (\<lambda>d1.
     ebind (py_len d1) (\<lambda>len.
     let desc = (if len > 50
                 then (case desc of
                         PStr s \<Rightarrow> PStr (s @ ''...'')
                       | PList l \<Rightarrow> PList (l @ [PStr ''.'', PStr ''.'', PStr ''.''])
                       | _ \<Rightarrow> desc)
                 else desc)
     in
     ebind (py_str name) (\<lambda>n.
     let actions = ''[View](/prompts view '' @ n @ '') | [Edit](/prompts edit '' @ n @ '')''
     in
     ebind (py_str category) (\<lambda>c.
     ebind (py_str desc) (\<lambda>d.
     Inr (output @ ''| '' @ c @ '' | '' @ n @ '' | '' @ d @ '' | '' @ actions @ '' |\<newline>'')))))))))"

definition create_prompt_editor_view :: "pyval \<Rightarrow> exn + string" where
  "create_prompt_editor_view prompts =
     (let output = dashboard_header in
      ebind (group_by_category prompts) (\<lambda>by_category.
      let output = output @ ''## All Prompts\<newline>\<newline>'' @
                   ''| Category | Name | Description | Actions |\<newline>'' @
                   ''|----------|------|-------------|----------|\<newline>''
      in
      ebind (sorted_items by_category) (\<lambda>groups.
      ebind (efold (\<lambda>(category, category_prompts) output.
                      ebind (sorted_by_name category_prompts) (\<lambda>ps.
                        efold (dashboard_row category) ps output))
                   groups output) (\<lambda>output.
      ebind (py_len prompts) (\<lambda>total.
      let output = output @ ''\<newline>---\<newline>\<newline>'' @ ''## Quick Stats\<newline>\<newline>'' @
                   ''- Total prompts: '' @ str_nat total @ ''\<newline>'' @
                   ''- Categories: '' @ str_nat (length by_category) @ ''\<newline>''
      in
      ebind (sorted_items by_category) (\<lambda>groups.
        efold (\<lambda>(category, category_prompts) output.
                 ebind (py_str category) (\<lambda>c.
                 Inr (output @ ''  - '' @ c @ '': '' @ str_nat (length category_prompts) @
                      '' prompts\<newline>'')))
              groups output))))))"

section \<open>Formatting the result of a pending command\<close>

definition format_prompt_result_body :: "string \<Rightarrow> string \<Rightarrow> exn + string" where
  \<comment> \<open>the \<open>try\<close> block of \<open>_format_prompt_result\<close>\<close>
  "format_prompt_result_body subcommand result =
     (let lower_result = lower result in
      if list_ex (\<lambda>error. contains error lower_result)
           [''failed to connect'', ''connection error'', ''database error'', ''server error'',
            ''timeout'', ''not found: d1-database'']
      then Inr (cross_mark @ '' Database Error: '' @ result @ ''\<newline>\<newline>'' @
                ''Please ensure the D1 database server is running and accessible.\<newline>'' @
                ''You can check available servers with `/servers` command.'')
      else
        ebind (parse_db_results (PStr result)) (\<lambda>db_results.
        ebind (py_truthy db_results) (\<lambda>t.
        if \<not> t \<and> contains ''error'' (lower result)
        then Inr (cross_mark @ '' Database query failed: '' @ result)
        else if subcommand \<in> set [''list'', ''dashboard''] then
          (if \<not> t then
             Inr ''No prompts found in the database. The prompts table may be empty or there was an error connecting to the database.''
           else format_prompt_list db_results)
        else if subcommand = ''view'' then
          (if t then ebind (py_first db_results) format_prompt_detail
           else Inr ''Prompt not found. Please check the prompt name and try again.'')
        else if subcommand = ''search'' then
          (if t then format_prompt_list db_results
           else Inr ''No prompts found matching your search criteria.'')
        else if subcommand = ''category'' then
          ebind (if t then
                   ebind (py_len db_results) (\<lambda>n.
                     if n > 0 then
                       ebind (py_first db_results) (\<lambda>first.
                       ebind (py_str first) (\<lambda>s. Inr (contains ''count'' s)))
                     else Inr False)
                 else Inr False) (\<lambda>counts.
          if counts then
            ebind (py_iter db_results) (\<lambda>rows.
              efold (\<lambda>row output.
                       ebind (py_get row ''category'' (PStr ''Unknown'')) (\<lambda>category.
                       ebind (py_get row ''count'' (PInt 0)) (\<lambda>count.
                       ebind (py_str category) (\<lambda>c.
                       ebind (py_str count) (\<lambda>n.
                       Inr (output @ ''- **'' @ c @ ''**: '' @ n @ '' prompts\<newline>''))))))
                    rows ''# Prompt Categories\<newline>\<newline>'')
          else if t then format_prompt_list db_results
          else Inr ''No prompts found in this category.'')
        else if subcommand = ''edit'' then
          (if t then
             ebind (py_first db_results) (\<lambda>prompt.
             ebind (format_prompt_detail prompt) (\<lambda>detail.
             Inr (detail @ ''\<newline>\<newline>---\<newline>\<newline>To edit this prompt, provide the updated content.'')))
           else Inr ''Prompt not found. Please check the prompt name and try again.'')
        else if subcommand = ''delete'' then
          (if contains ''error'' (lower result)
           then Inr (cross_mark @ '' Failed to delete prompt: '' @ result)
           else Inr (check_mark @ '' Prompt deleted successfully.''))
        else Inr result)))"

definition format_prompt_result :: "string \<Rightarrow> string \<Rightarrow> exn + string" where
  "format_prompt_result subcommand result =
     catch (format_prompt_result_body subcommand result)
       (\<lambda>e. Inr (cross_mark @ '' Error processing command result: '' @ exn_str e @
                  ''\<newline>\<newline>Raw result: '' @ result))"

definition load_content :: "string \<Rightarrow> string \<Rightarrow> string \<Rightarrow> exn + string" where
  \<comment> \<open>the branches \<open>init\<close> and \<open>load_specific\<close>, which differ in their two texts\<close>
  "load_content result found missing =
     ebind (parse_db_results (PStr result)) (\<lambda>db_results.
     ebind (py_truthy db_results) (\<lambda>t.
     ebind (if t then
              ebind (py_first db_results) (\<lambda>first.
              ebind (py_get first ''content'' PNone) py_truthy)
            else Inr False) (\<lambda>has_content.
     if has_content then
       ebind (py_first db_results) (\<lambda>first.
       ebind (py_item first ''content'') (\<lambda>content.
       ebind (py_str content) (\<lambda>c. Inr (found @ c))))
     else Inr missing)))"

definition format_travel_result_body :: "string \<Rightarrow> string \<Rightarrow> exn + string" where
  \<comment> \<open>the \<open>try\<close> block of \<open>_format_travel_result\<close>\<close>
  "format_travel_result_body subcommand result =
     (if subcommand = ''default'' then
        (if contains ''pricing'' (lower result) \<or> contains ''tier'' (lower result) then
           Inr (warning_sign @ '' **Unexpected Response from Prompt Server**\<newline>\<newline>'' @
                ''The prompt server returned a pricing system prompt instead of the travel assistant.\<newline>\<newline>'' @
                ''**Try these alternatives:**\<newline>'' @
                ''1. `/travel db` - Load from database\<newline>'' @
                ''2. `/travel check` - See available prompts\<newline>'' @
                ''3. `/travel setup` - Use setup wizard\<newline>'' @
                ''4. `/travel load <prompt_name>` - Load specific prompt\<newline>\<newline>'' @
                ''**Received:**\<newline>'' @ take 200 result @ ''...'')
         else Inr (check_mark @ '' **Travel Assistant Initialized**\<newline>\<newline>'' @ result))
      else if subcommand = ''init'' then
        load_content result
          (check_mark @ '' **Travel Assistant Loaded from Database**\<newline>\<newline>'')
          (cross_mark @ '' No travel assistant prompt found in database.\<newline>\<newline>'' @
           ''Please create one with:\<newline>'' @
           ''`/prompts create travel_assistant_system`'')
      else if subcommand = ''full_init'' then
        ebind (parse_db_results (PStr result)) (\<lambda>db_results.
        ebind (py_truthy db_results) (\<lambda>t.
        if t then
          ebind (py_iter db_results) (\<lambda>prompts.
            efold (\<lambda>prompt output.
                     ebind (py_get prompt ''name'' (PStr ''Unknown'')) (\<lambda>name.
                     ebind (py_str name) (\<lambda>n.
                     ebind (py_get prompt ''content'' (PStr [])) (\<lambda>c0.
                     ebind (py_slice_to c0 200) (\<lambda>content.
                     ebind (py_str content) (\<lambda>c.
                     Inr (output @ ''**'' @ n @ ''**\<newline>'' @ c @ ''...\<newline>\<newline>'')))))))
                  prompts (check_mark @ '' **Travel Assistant Components Loaded**\<newline>\<newline>''))
        else Inr (cross_mark @ '' No travel prompts found in database.'')))
      else if subcommand = ''load_specific'' then
        load_content result
          (check_mark @ '' **Prompt Loaded Successfully**\<newline>\<newline>'')
          (cross_mark @ '' Prompt not found. Check the name and try again.'')
      else if subcommand = ''custom_init'' then
        ebind (parse_db_results (PStr result)) (\<lambda>db_results.
        ebind (py_truthy db_results) (\<lambda>t.
        if t then
          ebind (py_iter db_results) (\<lambda>prompts.
          ebind (efold (\<lambda>prompt output.
                          ebind (py_get prompt ''name'' (PStr ''Unknown'')) (\<lambda>name.
                          ebind (py_str name) (\<lambda>n.
                          Inr (output @ ''- '' @ n @ ''\<newline>''))))
                       prompts
                       (check_mark @ '' **Custom Travel Assistant Initialized**\<newline>\<newline>'' @
                        ''**Loaded Components:**\<newline>'')) (\<lambda>output.
          ebind (emap (\<lambda>p. py_get p ''content'' (PStr [])) prompts) (\<lambda>contents.
          ebind (py_join ''\<newline>\<newline>---\<newline>\<newline>'' (PList contents)) (\<lambda>combined.
          Inr (output @ ''\<newline>**Combined Instructions:**\<newline>'' @ take 500 combined @ ''...'')))))
        else Inr (cross_mark @ '' No matching components found in database.'')))
      else Inr result)"

definition format_travel_result :: "string \<Rightarrow> string \<Rightarrow> exn + string" where
  "format_travel_result subcommand result =
     catch (format_travel_result_body subcommand result)
       (\<lambda>e. Inr (cross_mark @ '' Error processing travel initialization: '' @ exn_str e))"

definition should_format_result :: "handler_state \<Rightarrow> string \<Rightarrow> bool" where
  "should_format_result st command_text = (pending_format_requests st command_text \<noteq> None)"

definition pop_pending :: "string \<Rightarrow> handler_state \<Rightarrow> handler_state" where
  \<comment> \<open>the state after \<open>self.pending_format_requests.pop(k)\<close>\<close>
  "pop_pending k st = st\<lparr>pending_format_requests := (pending_format_requests st)(k := None)\<rparr>"

definition format_command_result ::
  "handler_state \<Rightarrow> string \<Rightarrow> string \<Rightarrow> handler_state \<times> (exn + string)" where
  \<comment> \<open>the unpacking of the two parts of the stored text raises \<open>ValueError\<close> when the
      text does not have exactly one colon; that is after the entry was removed and
      outside any \<open>try\<close>\<close>
  "format_command_result st command_text result =
     (case pending_format_requests st command_text of
        None \<Rightarrow> (st, Inr result)
      | Some format_info \<Rightarrow>
          (let st' = pop_pending command_text st
           in case split_on (CHR '':'') format_info of
                [command_type, subcommand] \<Rightarrow>
                  if command_type = ''prompts'' then (st', format_prompt_result subcommand result)
                  else if command_type = ''travel'' then (st', format_travel_result subcommand result)
                  else (st', Inr result)
              | [x] \<Rightarrow> (st', Inl (ValueError ''not enough values to unpack (expected 2, got 1)''))
              | _ \<Rightarrow> (st', Inl (ValueError ''too many values to unpack (expected 2)''))))"

section \<open>Properties of parsing\<close>

lemma rstrip_Cons: "\<not> is_space c \<Longrightarrow> rstrip (c # cs) = c # rstrip cs"
  by (auto simp: rstrip_def dropWhile_append)

lemma mem_dropWhile: "c \<in> set t \<Longrightarrow> \<not> P c \<Longrightarrow> c \<in> set (dropWhile P t)"
  by (induction t) auto

lemma split_ws_from_Nil: "split_ws_from cur s = [] \<longleftrightarrow> cur = [] \<and> (\<forall>c\<in>set s. is_space c)"
  by (induction s arbitrary: cur) auto

lemma not_space_slash: "\<not> is_space (CHR ''/'')"
  by (simp add: is_space_def)

lemma startswith_strip: "startswith (strip s) ''/'' \<longleftrightarrow> startswith (dropWhile is_space s) ''/''"
proof (cases "dropWhile is_space s")
  case Nil
  then show ?thesis by (simp only: strip_def lstrip_def rstrip_def rev.simps dropWhile.simps)
next
  case (Cons c cs)
  then have "\<not> is_space c" using hd_dropWhile[of is_space s] by auto
  then have "rstrip (c # cs) = c # rstrip cs" by (rule rstrip_Cons)
  with Cons show ?thesis by (simp add: strip_def lstrip_def startswith_def)
qed

lemma strip_has_nonspace:
  "(\<exists>c\<in>set (strip t). \<not> is_space c) \<longleftrightarrow> (\<exists>c\<in>set t. \<not> is_space c)"
proof
  assume "\<exists>c\<in>set (strip t). \<not> is_space c"
  then obtain c where c: "c \<in> set (strip t)" "\<not> is_space c" by blast
  from c(1) have "c \<in> set (dropWhile is_space t)"
    unfolding strip_def rstrip_def lstrip_def using set_dropWhileD by fastforce
  then have "c \<in> set t" by (rule set_dropWhileD)
  with c(2) show "\<exists>c\<in>set t. \<not> is_space c" by blast
next
  assume "\<exists>c\<in>set t. \<not> is_space c"
  then obtain c where c: "c \<in> set t" "\<not> is_space c" by blast
  then have "c \<in> set (dropWhile is_space t)" by (rule mem_dropWhile)
  then have "c \<in> set (rev (dropWhile is_space t))" by simp
  then have "c \<in> set (dropWhile is_space (rev (dropWhile is_space t)))"
    using c(2) by (rule mem_dropWhile)
  then have "c \<in> set (strip t)" by (simp add: strip_def rstrip_def lstrip_def)
  with c(2) show "\<exists>c\<in>set (strip t). \<not> is_space c" by blast
qed

lemma parse_command_Some_iff:
  "parse_command s \<noteq> None \<longleftrightarrow> startswith s ''/'' \<and> (\<exists>c\<in>set (drop 1 s). \<not> is_space c)"
  using strip_has_nonspace[of "drop 1 s"]
  by (auto simp: parse_command_def Let_def split_ws_def split_ws_from_Nil)

text \<open>
  C1 (amended). \<open>is_slash_command\<close> is true exactly when the first character of the
  input that is not whitespace is the slash. \<open>parse_command\<close> returns a triple only
  for inputs on which \<open>is_slash_command\<close> is true, but not for all of them: for an
  input that begins with the slash it returns a triple exactly when some character after
  the slash is not whitespace.
\<close>

theorem is_slash_command_parse_command:
  "(is_slash_command s \<longleftrightarrow> startswith (dropWhile is_space s) ''/'') \<and>
   (parse_command s \<noteq> None \<longrightarrow> is_slash_command s) \<and>
   (startswith s ''/'' \<longrightarrow>
      (parse_command s \<noteq> None \<longleftrightarrow> (\<exists>c\<in>set (drop 1 s). \<not> is_space c)))"
proof (intro conjI impI)
  show "is_slash_command s \<longleftrightarrow> startswith (dropWhile is_space s) ''/''"
    by (simp add: is_slash_command_def startswith_strip)
next
  assume "parse_command s \<noteq> None"
  then have "startswith s ''/''" using parse_command_Some_iff by blast
  then have "dropWhile is_space s = s"
    by (cases s) (auto simp: startswith_def not_space_slash)
  with \<open>startswith s ''/''\<close> show "is_slash_command s"
    by (simp add: is_slash_command_def startswith_strip)
next
  assume "startswith s ''/''"
  then show "parse_command s \<noteq> None \<longleftrightarrow> (\<exists>c\<in>set (drop 1 s). \<not> is_space c)"
    using parse_command_Some_iff by blast
qed

theorem is_slash_command_parse_command_witness:
  "is_slash_command ''/help x'' \<and> parse_command ''/help x'' \<noteq> None \<and>
   startswith ''/help x'' ''/'' \<and> (\<exists>c\<in>set (drop 1 ''/help x''). \<not> is_space c)"
  using is_slash_command_parse_command[of "''/help x''"]
  by (simp add: startswith_def is_space_def)

text \<open>
  C1 as stated fails on the input that is the slash alone: \<open>is_slash_command\<close> is
  true and \<open>parse_command\<close> returns no triple.
\<close>

theorem is_slash_command_parse_command_counterexample:
  "is_slash_command ''/'' \<and> parse_command ''/'' = None"
  by (simp add: is_slash_command_def parse_command_def startswith_def strip_def lstrip_def
      rstrip_def is_space_def split_ws_def)

section \<open>Properties of dispatch\<close>

text \<open>
  C10. On every input for which \<open>parse_command\<close> returns no triple (the input does
  not begin with the slash, or nothing but whitespace follows the slash),
  \<open>execute_command\<close> returns the unknown-command message with the text \<open>None\<close> as
  the command name, and leaves the state as it was.
\<close>

theorem execute_command_parse_none:
  "(parse_command input_text = None \<longleftrightarrow>
      \<not> startswith input_text ''/'' \<or> (\<forall>c\<in>set (drop 1 input_text). is_space c)) \<and>
   (parse_command input_text = None \<longrightarrow>
      execute_command st input_text =
        (st, ''Unknown command: /None. Use /help for available commands.''))"
proof (intro conjI impI)
  show "parse_command input_text = None \<longleftrightarrow>
      \<not> startswith input_text ''/'' \<or> (\<forall>c\<in>set (drop 1 input_text). is_space c)"
    using parse_command_Some_iff[of input_text] by blast
next
  assume "parse_command input_text = None"
  then show "execute_command st input_text =
        (st, ''Unknown command: /None. Use /help for available commands.'')"
    by (simp add: execute_command_def)
qed

theorem execute_command_parse_none_witness:
  "parse_command ''/ '' = None \<and>
   execute_command init_state ''/ '' =
     (init_state, ''Unknown command: /None. Use /help for available commands.'')"
proof -
  have h: "parse_command ''/ '' = None"
    by (simp add: parse_command_def startswith_def strip_def lstrip_def rstrip_def
        is_space_def split_ws_def)
  with execute_command_parse_none[of "''/ ''" init_state] show ?thesis by blast
qed

text \<open>
  C2 (amended). For every raw input whose command token, case-folded, is exactly
  \<open>prompts\<close>, and whose handler returns a text that starts with the directive prefix,
  \<open>execute_command\<close> records a pending entry keyed by the exact raw input and mapped to
  \<open>prompts:\<close> followed by the subcommand (\<open>list\<close> when there is none). The command
  name is tested against \<open>prompts\<close> before anything is recorded, so this holds for that
  command name only.
\<close>

theorem execute_command_records_prompts:
  assumes "parse_command input_text = Some (''prompts'', subcommand, args)"
    and "map_of (commands st) ''prompts'' = Some cmd"
    and "run_handler (cmd_handler cmd) st subcommand args = (st1, Inr result)"
    and "startswith result directive_prefix"
  shows "execute_command st input_text =
           (set_pending input_text
              (''prompts:'' @ (case subcommand of None \<Rightarrow> ''list''
                               | Some s \<Rightarrow> if s = [] then ''list'' else s)) st1,
            result) \<and>
         pending_format_requests (fst (execute_command st input_text)) input_text =
           Some (''prompts:'' @ (case subcommand of None \<Rightarrow> ''list''
                                 | Some s \<Rightarrow> if s = [] then ''list'' else s))"
  using assms by (auto simp: execute_command_def Let_def set_pending_def)

lemma map_of_fold_update:
  "map_of (fold (\<lambda>alias cs. AList.update alias c cs) als cs0) k =
     (if k \<in> set als then Some c else map_of cs0 k)"
  by (induction als arbitrary: cs0) (auto simp: update_conv')

lemma map_of_register_command:
  "map_of (commands (register_command n d h u als st)) k =
     (if k = n \<or> k \<in> set als
      then Some \<lparr>cmd_name = n, cmd_description = d, cmd_handler = h, cmd_usage = u,
                  cmd_aliases = als\<rparr>
      else map_of (commands st) k)"
  by (simp add: register_command_def Let_def map_of_fold_update update_conv')

lemma init_state_prompts:
  "map_of (commands init_state) ''prompts'' =
     Some \<lparr>cmd_name = ''prompts'', cmd_description = ''View and manage D1 database prompts'',
           cmd_handler = Handle_prompts,
           cmd_usage = ''/prompts [list|view|dashboard|search|category|edit|create|delete|update]'',
           cmd_aliases = [''p'', ''prompt'']\<rparr>"
  by (simp add: init_state_def register_default_commands_def map_of_register_command)

lemma pending_register_command:
  "pending_format_requests (register_command n d h u als st) = pending_format_requests st"
  by (simp add: register_command_def Let_def)

lemma pending_init_state: "pending_format_requests init_state = Map.empty"
  by (simp add: init_state_def register_default_commands_def pending_register_command)

lemma parse_create_prompt:
  "parse_command ''/create-prompt n a b c d'' =
     Some (''create-prompt'', Some ''n'', [''a'', ''b'', ''c'', ''d''])"
  by (simp add: parse_command_def startswith_def strip_def lstrip_def rstrip_def is_space_def
      split_ws_def lower_def lower_char_def is_upper_def)

lemma parse_command_prompts_view:
  "parse_command ''/Prompts view foo'' = Some (''prompts'', Some ''view'', [''foo''])"
  by (simp add: parse_command_def startswith_def strip_def lstrip_def rstrip_def is_space_def
      split_ws_def lower_def lower_char_def is_upper_def)

theorem execute_command_records_prompts_witness:
  "parse_command ''/Prompts view foo'' = Some (''prompts'', Some ''view'', [''foo'']) \<and>
   startswith ''use_tool_from_server d1-database query {\"query\": \"SELECT * FROM prompts WHERE name = 'foo' LIMIT 1\"}''
     directive_prefix \<and>
   execute_command init_state ''/Prompts view foo'' =
     (set_pending ''/Prompts view foo'' ''prompts:view'' init_state,
      ''use_tool_from_server d1-database query {\"query\": \"SELECT * FROM prompts WHERE name = 'foo' LIMIT 1\"}'') \<and>
   pending_format_requests (fst (execute_command init_state ''/Prompts view foo''))
     ''/Prompts view foo'' = Some ''prompts:view''"
proof -
  let ?r = "''use_tool_from_server d1-database query {\"query\": \"SELECT * FROM prompts WHERE name = 'foo' LIMIT 1\"}''"
  have h3: "run_handler (cmd_handler \<lparr>cmd_name = ''prompts'',
        cmd_description = ''View and manage D1 database prompts'',
        cmd_handler = Handle_prompts,
        cmd_usage = ''/prompts [list|view|dashboard|search|category|edit|create|delete|update]'',
        cmd_aliases = [''p'', ''prompt'']\<rparr>) init_state (Some ''view'') [''foo''] =
      (init_state, Inr ?r)"
    by (simp add: handle_prompts_def)
  have h4: "startswith ?r directive_prefix"
    by (simp add: startswith_def directive_prefix_def)
  have c: "execute_command init_state ''/Prompts view foo'' =
      (set_pending ''/Prompts view foo'' (''prompts:'' @ ''view'') init_state, ?r) \<and>
     pending_format_requests (fst (execute_command init_state ''/Prompts view foo''))
       ''/Prompts view foo'' = Some (''prompts:'' @ ''view'')"
    using execute_command_records_prompts[OF parse_command_prompts_view init_state_prompts h3 h4]
    by (simp add: set_pending_def)
  have e: "''prompts:'' @ ''view'' = ''prompts:view''" by simp
  show ?thesis
    using parse_command_prompts_view h4 c unfolding e by blast
qed

text \<open>
  C2 as stated fails for the \<open>create-prompt\<close> command: its handler returns a
  directive, and no pending entry is recorded under the raw input.
\<close>

theorem execute_command_records_counterexample:
  "startswith (snd (execute_command init_state ''/create-prompt n a b c d'')) directive_prefix \<and>
   pending_format_requests (fst (execute_command init_state ''/create-prompt n a b c d''))
     ''/create-prompt n a b c d'' = None"
  by (simp add: execute_command_def parse_create_prompt init_state_def
      register_default_commands_def map_of_register_command pending_register_command
      handle_create_prompt_def startswith_def directive_prefix_def)

section \<open>Properties of the pending results\<close>

lemma fst_format_command_result:
  "fst (format_command_result st key raw) =
     (if pending_format_requests st key = None then st else pop_pending key st)"
  by (auto simp: format_command_result_def Let_def split: option.splits list.splits)

text \<open>
  C3. If the key has no pending entry, \<open>format_command_result\<close> returns the raw payload
  unchanged and leaves the state as it was. In every case the key has no pending entry
  after the call (the entry is removed before anything else happens), so a second call
  with the same key returns its raw payload unchanged.
\<close>

theorem format_command_result_exactly_once:
  "(pending_format_requests st key = None \<longrightarrow>
      format_command_result st key raw = (st, Inr raw)) \<and>
   pending_format_requests (fst (format_command_result st key raw)) key = None \<and>
   format_command_result (fst (format_command_result st key raw)) key raw2 =
     (fst (format_command_result st key raw), Inr raw2)"
proof -
  have a: "pending_format_requests st key = None \<Longrightarrow>
      format_command_result st key raw = (st, Inr raw)"
    by (simp add: format_command_result_def)
  have b: "pending_format_requests (fst (format_command_result st key raw)) key = None"
    by (simp add: fst_format_command_result pop_pending_def)
  have c: "format_command_result (fst (format_command_result st key raw)) key raw2 =
     (fst (format_command_result st key raw), Inr raw2)"
    using b by (simp add: format_command_result_def)
  from a b c show ?thesis by blast
qed

theorem format_command_result_exactly_once_witness:
  "pending_format_requests init_state ''/prompts list'' = None \<and>
   format_command_result init_state ''/prompts list'' ''[]'' = (init_state, Inr ''[]'')"
proof -
  have h: "pending_format_requests init_state ''/prompts list'' = None"
    by (simp add: pending_init_state)
  with format_command_result_exactly_once[of init_state "''/prompts list''" "''[]''"]
  show ?thesis by blast
qed

lemma json_loads_null_content:
  "json_loads ''[{\"name\": \"a\", \"content\": null}]'' =
     Inr (PList [PDict [(''name'', PStr ''a''), (''content'', PNone)]])"
  by (simp add: json_loads_def next_token_def json_ws_def scan_number_def is_digit_def
      digit_val_def startswith_def dict_of_def)

lemma no_error_pattern_null_content:
  "\<not> list_ex (\<lambda>pattern. contains pattern (lower ''[{\"name\": \"a\", \"content\": null}]''))
       error_patterns"
  by (simp add: error_patterns_def lower_def lower_char_def is_upper_def startswith_def)

lemma parse_db_results_null_content:
  "parse_db_results (PStr ''[{\"name\": \"a\", \"content\": null}]'') =
     Inr (PList [PDict [(''name'', PStr ''a''), (''content'', PNone)]])"
  using no_error_pattern_null_content
  by (simp add: parse_db_results_def json_loads_null_content Let_def)

lemma execute_travel_full_pending:
  "pending_format_requests (fst (execute_command init_state ''/travel full'')) ''/travel full'' =
     Some ''travel:full_init''"
  by (simp add: execute_command_def parse_command_def startswith_def strip_def lstrip_def
      rstrip_def is_space_def split_ws_def lower_def lower_char_def is_upper_def init_state_def
      register_default_commands_def map_of_register_command pending_register_command
      handle_travel_init_def set_pending_def directive_prefix_def)

lemma execute_prompts_create_pending:
  "pending_format_requests (fst (execute_command init_state ''/prompts create foo''))
     ''create:foo'' = Some ''create_workflow''"
  by (simp add: execute_command_def parse_command_def startswith_def strip_def lstrip_def
      rstrip_def is_space_def split_ws_def lower_def lower_char_def is_upper_def init_state_def
      register_default_commands_def map_of_register_command pending_register_command
      handle_prompts_def set_pending_def directive_prefix_def)

text \<open>
  C9 fails on the code. After \<open>/travel full\<close>, a payload whose row has a null
  \<open>content\<close> makes the slice in the travel formatter raise; the exception is caught, but
  the text returned holds the diagnostic only, not the raw payload (the formatter of the
  prompt commands appends the raw payload, the travel one does not). After
  \<open>/prompts create foo\<close>, the entry stored under \<open>create:foo\<close> has no colon, and resolving
  that key raises \<open>ValueError\<close> out of \<open>format_command_result\<close>.
\<close>

theorem format_command_result_failures:
  "snd (format_command_result (fst (execute_command init_state ''/travel full''))
          ''/travel full'' ''[{\"name\": \"a\", \"content\": null}]'') =
     Inr (cross_mark @ '' Error processing travel initialization: '' @
          ([CHR 0x27] @ ''NoneType' object is not subscriptable'')) \<and>
   \<not> contains ''[{\"name\": \"a\", \"content\": null}]''
        (cross_mark @ '' Error processing travel initialization: '' @
         ([CHR 0x27] @ ''NoneType' object is not subscriptable'')) \<and>
   snd (format_command_result (fst (execute_command init_state ''/prompts create foo''))
          ''create:foo'' ''[]'') =
     Inl (ValueError ''not enough values to unpack (expected 2, got 1)'')"
proof (intro conjI)
  show "snd (format_command_result (fst (execute_command init_state ''/travel full''))
          ''/travel full'' ''[{\"name\": \"a\", \"content\": null}]'') =
     Inr (cross_mark @ '' Error processing travel initialization: '' @
          ([CHR 0x27] @ ''NoneType' object is not subscriptable''))"
    by (simp add: format_command_result_def execute_travel_full_pending Let_def
        format_travel_result_def format_travel_result_body_def parse_db_results_null_content
        ebind_def catch_def py_iter_def py_get_def py_str_def py_slice_to_def
        not_subscriptable_def)
next
  show "\<not> contains ''[{\"name\": \"a\", \"content\": null}]''
        (cross_mark @ '' Error processing travel initialization: '' @
         ([CHR 0x27] @ ''NoneType' object is not subscriptable''))"
    by (simp add: cross_mark_def startswith_def)
next
  show "snd (format_command_result (fst (execute_command init_state ''/prompts create foo''))
          ''create:foo'' ''[]'') =
     Inl (ValueError ''not enough values to unpack (expected 2, got 1)'')"
    by (simp add: format_command_result_def execute_prompts_create_pending Let_def)
qed

end
